theory Spec2Isabelle
  imports Complex_Main "HOL-Library.Word" "HOL-Library.Signed_Division" "HOL-Library.Sublist"
begin

unbundle bit_operations_syntax

section \<open>JavaScript values, errors and strings\<close>

text \<open>
  The client is JavaScript. A thrown exception is a value of \<open>js_error\<close> on the left of a
  sum; the constructor is the exception's class and the argument its message. The engine's
  own messages (TypeError, SyntaxError, RangeError) are written as V8 prints them.
  Strings are lists of characters; only code units below 256 are represented.
\<close>

datatype js_error =
    Error string
  | TypeError string
  | SyntaxError string
  | RangeError string
  | ValidationError "string list"
  | ThrownUndefined

fun message :: "js_error \<Rightarrow> string" where
  "message (Error m) = m"
| "message (TypeError m) = m"
| "message (SyntaxError m) = m"
| "message (RangeError m) = m"
| "message (ValidationError errs) = ''Validation failed''"
| "message ThrownUndefined = ''''"

type_synonym bytes = "nat list"

definition startsWith :: "string \<Rightarrow> string \<Rightarrow> bool" where
  "startsWith s p = (take (length p) s = p)"

definition isWhiteSpace :: "char \<Rightarrow> bool" where
  "isWhiteSpace c = (of_char c \<in> {9, 10, 11, 12, 13, 32, 160 :: nat})"

definition trimStart :: "string \<Rightarrow> string" where
  "trimStart s = dropWhile isWhiteSpace s"

definition trimEnd :: "string \<Rightarrow> string" where
  "trimEnd s = rev (dropWhile isWhiteSpace (rev s))"

definition trim :: "string \<Rightarrow> string" where
  "trim s = trimEnd (trimStart s)"

text \<open>\<open>String.prototype.padStart(n, c)\<close> with a one-character filler.\<close>

definition padStart :: "nat \<Rightarrow> char \<Rightarrow> string \<Rightarrow> string" where
  "padStart n c s = replicate (n - length s) c @ s"

subsection \<open>Digits\<close>

definition digitVal :: "char \<Rightarrow> nat option" where
  "digitVal c =
     (let n = (of_char c :: nat) in
      if 48 \<le> n \<and> n \<le> 57 then Some (n - 48)
      else if 97 \<le> n \<and> n \<le> 122 then Some (n - 87)
      else if 65 \<le> n \<and> n \<le> 90 then Some (n - 55)
      else None)"

definition digitIn :: "nat \<Rightarrow> char \<Rightarrow> nat option" where
  "digitIn radix c =
     (case digitVal c of
        None \<Rightarrow> None
      | Some d \<Rightarrow> if d < radix then Some d else None)"

fun digitsValue :: "nat \<Rightarrow> nat \<Rightarrow> string \<Rightarrow> nat option" where
  "digitsValue radix acc [] = Some acc"
| "digitsValue radix acc (c # cs) =
     (case digitIn radix c of
        None \<Rightarrow> None
      | Some d \<Rightarrow> digitsValue radix (radix * acc + d) cs)"

definition numeral_of :: "nat \<Rightarrow> string \<Rightarrow> nat option" where
  "numeral_of radix cs = (if cs = [] then None else digitsValue radix 0 cs)"

definition digitChar :: "nat \<Rightarrow> char" where
  "digitChar d = ''0123456789abcdefghijklmnopqrstuvwxyz'' ! d"

function natToString :: "nat \<Rightarrow> nat \<Rightarrow> string" where
  "natToString radix n =
     (if radix < 2 \<or> n < radix then [digitChar n]
      else natToString radix (n div radix) @ [digitChar (n mod radix)])"
  by pat_completeness auto
termination
  by (relation "measure (\<lambda>(radix, n). n)") auto

declare natToString.simps [simp del]

text \<open>\<open>BigInt.prototype.toString(radix)\<close>: a minus sign, then the digits of the magnitude.\<close>

definition bigintToString :: "nat \<Rightarrow> int \<Rightarrow> string" where
  "bigintToString radix v =
     (if v < 0 then CHR ''-'' # natToString radix (nat (- v))
      else natToString radix (nat v))"

text \<open>
  \<open>StringToBigInt\<close> of the language standard, as \<open>BigInt(string)\<close> applies it: white space
  is trimmed at both ends, the empty string is zero, a literal with prefix \<open>0x\<close>, \<open>0o\<close> or
  \<open>0b\<close> takes no sign, a decimal literal takes one optional sign. \<open>None\<close> is the
  SyntaxError.
\<close>

definition StringToBigInt :: "string \<Rightarrow> int option" where
  "StringToBigInt s =
     (let t = trim s in
      if t = [] then Some 0
      else if take 2 t = ''0x'' \<or> take 2 t = ''0X'' then map_option int (numeral_of 16 (drop 2 t))
      else if take 2 t = ''0o'' \<or> take 2 t = ''0O'' then map_option int (numeral_of 8 (drop 2 t))
      else if take 2 t = ''0b'' \<or> take 2 t = ''0B'' then map_option int (numeral_of 2 (drop 2 t))
      else if hd t = CHR ''-'' then map_option (\<lambda>n. - int n) (numeral_of 10 (tl t))
      else if hd t = CHR ''+'' then map_option int (numeral_of 10 (tl t))
      else map_option int (numeral_of 10 t))"

section \<open>Field elements (\<open>fieldElement.js\<close>)\<close>

definition FIELD_SIZE :: int where
  "FIELD_SIZE = 21888242871839275222246405745257275088548364400416034343698204186575808495617"

record FieldElement =
  "value" :: int

text \<open>
  The arguments the cryptographic functions are called with: a string, a bigint, a Number
  that holds an integer, a FieldElement, a Uint8Array, or \<open>undefined\<close>.
\<close>

datatype js_value =
    VString string
  | VBigInt int
  | VNumber int
  | VFieldElement FieldElement
  | VBytes bytes
  | VUndefined

fun joinComma :: "bytes \<Rightarrow> string" where
  "joinComma [] = []"
| "joinComma [b] = natToString 10 b"
| "joinComma (b # bs) = natToString 10 b @ CHR '','' # joinComma bs"

definition syntaxError :: "string \<Rightarrow> js_error" where
  "syntaxError s = SyntaxError (''Cannot convert '' @ s @ '' to a BigInt'')"

definition BigInt_string :: "string \<Rightarrow> js_error + int" where
  "BigInt_string s = (case StringToBigInt s of None \<Rightarrow> Inl (syntaxError s) | Some v \<Rightarrow> Inr v)"

text \<open>
  \<open>BigInt(v)\<close>. An object is first converted to a primitive: a FieldElement by its own
  \<open>toString\<close> (the decimal digits of its value), a Uint8Array by joining its elements
  with commas.
\<close>

fun BigInt :: "js_value \<Rightarrow> js_error + int" where
  "BigInt (VString s) = BigInt_string s"
| "BigInt (VBigInt v) = Inr v"
| "BigInt (VNumber n) = Inr n"
| "BigInt (VFieldElement x) = BigInt_string (bigintToString 10 (value x))"
| "BigInt (VBytes bs) = BigInt_string (joinComma bs)"
| "BigInt VUndefined = Inl (TypeError ''Cannot convert undefined to a BigInt'')"

text \<open>
  The tail of the constructor: \<open>%\<close> on BigInt truncates towards zero (\<open>smod\<close>), so a
  negative remainder is lifted by one modulus.
\<close>

definition reduce :: "int \<Rightarrow> FieldElement" where
  "reduce v =
     (let r = v smod FIELD_SIZE in
      \<lparr> value = (if r < 0 then r + FIELD_SIZE else r) \<rparr>)"

fun new_FieldElement :: "js_value \<Rightarrow> js_error + FieldElement" where
  "new_FieldElement (VString s) =
     (case BigInt_string (if startsWith s ''0x'' then s else ''0x'' @ s) of
        Inl e \<Rightarrow> Inl e
      | Inr v \<Rightarrow> Inr (reduce v))"
| "new_FieldElement v =
     (case BigInt v of
        Inl e \<Rightarrow> Inl e
      | Inr b \<Rightarrow> Inr (reduce b))"

definition fromHex :: "string \<Rightarrow> js_error + FieldElement" where
  "fromHex hex = new_FieldElement (VString (if startsWith hex ''0x'' then hex else ''0x'' @ hex))"

fun fromBytes_loop :: "int \<Rightarrow> bytes \<Rightarrow> int" where
  "fromBytes_loop v [] = v"
| "fromBytes_loop v (b # bs) = fromBytes_loop ((push_bit 8 v) OR int b) bs"

definition fromBytes :: "bytes \<Rightarrow> FieldElement" where
  "fromBytes bs = reduce (fromBytes_loop 0 bs)"

fun fromString :: "js_value \<Rightarrow> js_error + FieldElement" where
  "fromString (VString str) =
     (if startsWith str ''0x'' then new_FieldElement (VString str)
      else (case new_FieldElement (VString str) of
              Inl e \<Rightarrow> Inl (Error (''Invalid string format for field element: '' @ str))
            | Inr x \<Rightarrow> Inr x))"
| "fromString v = Inl (Error ''Input must be a string'')"

text \<open>
  An operand of \<open>add\<close>, \<open>sub\<close>, \<open>mul\<close>: a FieldElement is used as it is, anything else
  goes through the constructor. \<open>addFE\<close>, \<open>subFE\<close> and \<open>mulFE\<close> are the bodies of the
  methods once the operand is a FieldElement.
\<close>

fun asFieldElement :: "js_value \<Rightarrow> js_error + FieldElement" where
  "asFieldElement (VFieldElement x) = Inr x"
| "asFieldElement v = new_FieldElement v"

definition addFE :: "FieldElement \<Rightarrow> FieldElement \<Rightarrow> FieldElement" where
  "addFE this otherElement = reduce ((value this + value otherElement) smod FIELD_SIZE)"

definition subFE :: "FieldElement \<Rightarrow> FieldElement \<Rightarrow> FieldElement" where
  "subFE this otherElement =
     (let result = value this - value otherElement in
      reduce (if result < 0 then result + FIELD_SIZE else result))"

definition mulFE :: "FieldElement \<Rightarrow> FieldElement \<Rightarrow> FieldElement" where
  "mulFE this otherElement = reduce ((value this * value otherElement) smod FIELD_SIZE)"

definition add :: "FieldElement \<Rightarrow> js_value \<Rightarrow> js_error + FieldElement" where
  "add this other =
     (case asFieldElement other of
        Inl e \<Rightarrow> Inl e
      | Inr y \<Rightarrow> Inr (addFE this y))"

definition sub :: "FieldElement \<Rightarrow> js_value \<Rightarrow> js_error + FieldElement" where
  "sub this other =
     (case asFieldElement other of
        Inl e \<Rightarrow> Inl e
      | Inr y \<Rightarrow> Inr (subFE this y))"

definition mul :: "FieldElement \<Rightarrow> js_value \<Rightarrow> js_error + FieldElement" where
  "mul this other =
     (case asFieldElement other of
        Inl e \<Rightarrow> Inl e
      | Inr y \<Rightarrow> Inr (mulFE this y))"

definition multiply :: "FieldElement \<Rightarrow> js_value \<Rightarrow> js_error + FieldElement" where
  "multiply this other = mul this other"

text \<open>
  The square-and-multiply loop of \<open>pow\<close>; the source's variable \<open>exp\<close> is \<open>ex\<close> here,
  and \<open>exp >>= 1n\<close> is \<open>drop_bit 1\<close>.
\<close>

function pow_loop :: "int \<Rightarrow> int \<Rightarrow> int \<Rightarrow> int" where
  "pow_loop result base ex =
     (if ex > 0 then
        pow_loop (if ex AND 1 \<noteq> 0 then (result * base) smod FIELD_SIZE else result)
                 ((base * base) smod FIELD_SIZE)
                 (drop_bit 1 ex)
      else result)"
  by pat_completeness auto
termination
  by (relation "measure (\<lambda>(result, base, ex). nat ex)") (auto simp: drop_bit_eq_div)

declare pow_loop.simps [simp del]

definition pow :: "FieldElement \<Rightarrow> js_value \<Rightarrow> js_error + FieldElement" where
  "pow this exponent =
     (case BigInt exponent of
        Inl e \<Rightarrow> Inl e
      | Inr ex \<Rightarrow> Inr (reduce (pow_loop 1 (value this) ex)))"

definition inv_fe :: "FieldElement \<Rightarrow> js_error + FieldElement" where
  "inv_fe this = pow this (VBigInt (FIELD_SIZE - 2))"

definition toHex :: "FieldElement \<Rightarrow> string" where
  "toHex this = ''0x'' @ padStart 64 CHR ''0'' (bigintToString 16 (value this))"

definition isZero :: "FieldElement \<Rightarrow> bool" where
  "isZero this = (value this = 0)"

text \<open>The invariant of the data model: the value is a canonical residue.\<close>

definition inField :: "FieldElement \<Rightarrow> bool" where
  "inField x = (0 \<le> value x \<and> value x < FIELD_SIZE)"

subsection \<open>The module-level functions of \<open>fieldElement.js\<close>\<close>

fun bytesToBigInt_loop :: "int \<Rightarrow> bytes \<Rightarrow> int" where
  "bytesToBigInt_loop result [] = result"
| "bytesToBigInt_loop result (b # bs) = bytesToBigInt_loop (push_bit 8 result + int b) bs"

definition bytesToBigInt :: "bytes \<Rightarrow> int" where
  "bytesToBigInt bs = bytesToBigInt_loop 0 bs"

definition reduceBigInt :: "int \<Rightarrow> int" where
  "reduceBigInt v = (let r = v smod FIELD_SIZE in if r < 0 then r + FIELD_SIZE else r)"

fun toFieldElement :: "js_value \<Rightarrow> js_error + int" where
  "toFieldElement (VBigInt v) = Inr (reduceBigInt v)"
| "toFieldElement (VNumber n) =
     (if n < 0 then Inl (Error ''Number must be a non-negative integer'')
      else Inr (reduceBigInt n))"
| "toFieldElement (VString s) =
     (case BigInt_string s of
        Inl e \<Rightarrow> Inl (Error (''Invalid string format for field element: '' @ s))
      | Inr v \<Rightarrow> Inr (reduceBigInt v))"
| "toFieldElement (VBytes bs) = Inr (reduceBigInt (bytesToBigInt bs))"
| "toFieldElement (VFieldElement x) = Inl (Error ''Unsupported type for field element: object'')"
| "toFieldElement VUndefined = Inl (Error ''Unsupported type for field element: undefined'')"

text \<open>
  The recursive \<open>extendedGCD\<close> inside \<open>modInverse\<close>; \<open>/\<close> and \<open>%\<close> on BigInt truncate
  (\<open>sdiv\<close>, \<open>smod\<close>).
\<close>

function extendedGCD :: "int \<Rightarrow> int \<Rightarrow> int \<times> int \<times> int" where
  "extendedGCD a b =
     (if a = 0 then (b, 0, 1)
      else (case extendedGCD (b smod a) a of
              (g, x1, y1) \<Rightarrow> (g, y1 - (b sdiv a) * x1, x1)))"
  by pat_completeness auto
termination
proof (relation "measure (\<lambda>(a, b). nat \<bar>a\<bar>)")
  fix a b :: int
  assume "a \<noteq> 0"
  then have "\<bar>b smod a\<bar> < \<bar>a\<bar>"
    by (simp add: signed_modulo_int_def abs_mult abs_sgn_eq)
  then show "((b smod a, a), (a, b)) \<in> measure (\<lambda>(a, b). nat \<bar>a\<bar>)"
    by simp
qed simp

declare extendedGCD.simps [simp del]

definition modInverse :: "int \<Rightarrow> int \<Rightarrow> js_error + int" where
  "modInverse a m =
     (case extendedGCD (a smod m) m of
        (g, x, y) \<Rightarrow>
          if g \<noteq> 1 then Inl (Error ''Modular inverse does not exist'')
          else Inr (((x smod m) + m) smod m))"

definition inverseFieldElement :: "js_value \<Rightarrow> js_error + int" where
  "inverseFieldElement a =
     (case toFieldElement a of
        Inl e \<Rightarrow> Inl e
      | Inr element \<Rightarrow>
          if element = 0 then Inl (Error ''Cannot compute inverse of zero'')
          else modInverse element FIELD_SIZE)"

section \<open>Commit hash (\<open>commitmentGenerator.js\<close>)\<close>

text \<open>
  \<open>parseInt(s, radix)\<close>: leading white space and one sign are skipped, for radix 16 a
  prefix \<open>0x\<close> as well, then the longest run of digits is read; \<open>None\<close> is NaN.
\<close>

definition parseInt :: "nat \<Rightarrow> string \<Rightarrow> int option" where
  "parseInt radix s =
     (let s1 = trimStart s;
          negative = (s1 \<noteq> [] \<and> hd s1 = CHR ''-'');
          s2 = (if s1 \<noteq> [] \<and> (hd s1 = CHR ''-'' \<or> hd s1 = CHR ''+'') then tl s1 else s1);
          s3 = (if radix = 16 \<and> (take 2 s2 = ''0x'' \<or> take 2 s2 = ''0X'') then drop 2 s2 else s2);
          ds = takeWhile (\<lambda>c. digitIn radix c \<noteq> None) s3
      in if ds = [] then None
         else (case digitsValue radix 0 ds of
                 None \<Rightarrow> None
               | Some n \<Rightarrow> Some (if negative then - int n else int n)))"

text \<open>A store into a Uint8Array: NaN becomes 0, an integer is taken modulo 256.\<close>

definition toUint8 :: "int option \<Rightarrow> nat" where
  "toUint8 v = (case v of None \<Rightarrow> 0 | Some n \<Rightarrow> nat (n mod 256))"

text \<open>
  The loop \<open>bytes[i / 2] = parseInt(packedHex.slice(i, i + 2), 16)\<close> over a Uint8Array
  of \<open>length / 2\<close> elements: a last odd character falls outside the array and is dropped.
\<close>

fun hexPairs :: "string \<Rightarrow> bytes" where
  "hexPairs (a # b # cs) = toUint8 (parseInt 16 [a, b]) # hexPairs cs"
| "hexPairs cs = []"

text \<open>\<open>commitment.toString(16)\<close> on a commitment that is not a FieldElement.\<close>

fun toString16 :: "js_value \<Rightarrow> js_error + string" where
  "toString16 (VBigInt v) = Inr (bigintToString 16 v)"
| "toString16 (VNumber n) = Inr (bigintToString 16 n)"
| "toString16 (VString s) = Inr s"
| "toString16 (VFieldElement x) = Inr (bigintToString 10 (value x))"
| "toString16 (VBytes bs) = Inr (joinComma bs)"
| "toString16 VUndefined =
     Inl (TypeError ''Cannot read properties of undefined (reading 'toString')'')"

text \<open>
  \<open>keccak256\<close> is the function of the \<open>js-sha3\<close> package: bytes in, 64 hexadecimal
  digits out. It is a parameter of the model.
\<close>

definition generateCommitHash ::
  "(bytes \<Rightarrow> string) \<Rightarrow> js_value \<Rightarrow> js_value \<Rightarrow> string \<Rightarrow> js_error + string" where
  "generateCommitHash keccak256 commitment nonce address =
     (case (case commitment of
              VFieldElement c \<Rightarrow> Inr (drop 2 (toHex c))
            | v \<Rightarrow> (case toString16 v of
                       Inl e \<Rightarrow> Inl e
                     | Inr s \<Rightarrow> Inr (padStart 64 CHR ''0'' s))) of
        Inl e \<Rightarrow> Inl e
      | Inr commitmentHex \<Rightarrow>
          (case (case nonce of
                   VBigInt n \<Rightarrow> Inr (padStart 64 CHR ''0'' (bigintToString 16 n))
                 | v \<Rightarrow> (case BigInt v of
                            Inl e \<Rightarrow> Inl e
                          | Inr n \<Rightarrow> Inr (padStart 64 CHR ''0'' (bigintToString 16 n)))) of
             Inl e \<Rightarrow> Inl e
           | Inr nonceHex \<Rightarrow>
               (let addressHex = (if startsWith address ''0x'' then drop 2 address else address);
                    packedHex = commitmentHex @ nonceHex @ padStart 40 CHR ''0'' addressHex
                in Inr (''0x'' @ keccak256 (hexPairs packedHex)))))"

subsection \<open>What the ledger computes\<close>

text \<open>
  Solidity's \<open>abi.encodePacked(bytes32, uint256, address)\<close> is the 32 big-endian bytes of
  the first word, the 32 big-endian bytes of the second, and the 20 bytes of the address.
  \<open>bigEndian k v\<close> is the \<open>k\<close>-byte big-endian encoding of \<open>v\<close>; \<open>hexDenotes hs a\<close> says
  that the hexadecimal digits \<open>hs\<close> (of either case) spell the bytes \<open>a\<close>.
\<close>

definition bigEndian :: "nat \<Rightarrow> nat \<Rightarrow> bytes" where
  "bigEndian k v = map (\<lambda>i. (v div 256 ^ (k - 1 - i)) mod 256) [0..<k]"

definition nibbles :: "bytes \<Rightarrow> nat list" where
  "nibbles a = concat (map (\<lambda>b. [b div 16, b mod 16]) a)"

definition hexDenotes :: "string \<Rightarrow> bytes \<Rightarrow> bool" where
  "hexDenotes hs a = (map (digitIn 16) hs = map Some (nibbles a))"

definition encodePacked :: "nat \<Rightarrow> nat \<Rightarrow> bytes \<Rightarrow> bytes" where
  "encodePacked commitment nonce address = bigEndian 32 commitment @ bigEndian 32 nonce @ address"

text \<open>Auxiliary functions of the proofs: fixed-width digits and bytes, least significant last.\<close>

fun hexfix :: "nat \<Rightarrow> nat \<Rightarrow> string" where
  "hexfix 0 v = []"
| "hexfix (Suc m) v = hexfix m (v div 16) @ [digitChar (v mod 16)]"

fun be_rec :: "nat \<Rightarrow> nat \<Rightarrow> bytes" where
  "be_rec 0 v = []"
| "be_rec (Suc k) v = be_rec k (v div 256) @ [v mod 256]"

section \<open>Nullifier usage query (\<open>nullifierGenerator.js\<close>)\<close>

text \<open>
  The ledger contract handle is the function behind \<open>contract.usedNullifiers\<close>: it
  answers a boolean or rejects. \<open>isNullifierUsed\<close> awaits it inside \<open>try\<close> and returns
  \<open>false\<close> from the \<open>catch\<close>; its own result is again a sum, so that "never throws" is a
  statement about it.
\<close>

definition isNullifierUsed :: "(string \<Rightarrow> js_error + bool) \<Rightarrow> string \<Rightarrow> js_error + bool" where
  "isNullifierUsed usedNullifiers nullifier =
     (case usedNullifiers nullifier of
        Inr used \<Rightarrow> Inr used
      | Inl error \<Rightarrow> Inr False)"

section \<open>Keeper selection (\<open>orderManager.js\<close>)\<close>

text \<open>
  What the ledger contract answers for a keeper: the fields of the \<open>keepers(address)\<close>
  struct, unsigned integers on the ledger and bigints in the client.
\<close>

record keeper =
  publicKey :: string
  reputationScore :: nat
  successfulBatches :: nat
  failedBatches :: nat
  isActive :: bool
  isSlashed :: bool

text \<open>
  The read-only contract handle as \<open>getActiveKeeperPublicKey\<close> uses it: \<open>getContract\<close>
  may throw; \<open>activeKeeperList i\<close> and \<open>keepers a\<close> are the two queries, each answering
  or rejecting.
\<close>

record keeper_ledger =
  getContract :: "js_error + unit"
  activeKeeperList :: "nat \<Rightarrow> js_error + string"
  keepers :: "string \<Rightarrow> js_error + keeper"

text \<open>
  \<open>contract.activeKeeperList\<close> is a method of the ethers contract object, a function that
  takes its arguments as a rest parameter. \<open>contract.activeKeeperList.length\<close> is the
  \<open>length\<close> of that function, the number of its declared parameters: 0, whatever the
  ledger lists.
\<close>

definition activeKeeperList_length :: nat where
  "activeKeeperList_length = 0"

text \<open>The object \<open>{address, publicKey, score}\<close> kept in \<open>bestKeeper\<close>.\<close>

record bestKeeper =
  bk_address :: string
  bk_publicKey :: string
  bk_score :: rat

text \<open>
  Numbers are IEEE 754 doubles. A finite double is a rational, and \<open>+\<close>, \<open>*\<close>, \<open>/\<close> and
  \<open>Number(bigint)\<close> give the exact result rounded to the nearest double, ties to the even
  significand. \<open>toDouble\<close> is that rounding on the normal range, magnitudes from
  \<open>2^-1022\<close> up to \<open>2^1024\<close>, which the scores stay in: the ledger's counters are unsigned
  integers of 64 and 32 bits. \<open>exponentOf x\<close> is the \<open>e\<close> with \<open>2^e \<le> x < 2^(e+1)\<close>, for
  a positive \<open>x\<close>.
\<close>

function bitLength :: "int \<Rightarrow> int" where
  "bitLength n = (if n \<le> 0 then 0 else 1 + bitLength (n div 2))"
  by pat_completeness auto
termination
  by (relation "measure nat") auto

declare bitLength.simps [simp del]

definition pow2 :: "int \<Rightarrow> rat" where
  "pow2 e = (if 0 \<le> e then 2 ^ nat e else 1 / 2 ^ nat (- e))"

definition exponentOf :: "rat \<Rightarrow> int" where
  "exponentOf x = (if 1 \<le> x then bitLength \<lfloor>x\<rfloor> - 1 else - bitLength (\<lceil>1 / x\<rceil> - 1))"

definition roundHalfEven :: "rat \<Rightarrow> int" where
  "roundHalfEven q =
     (let n = \<lfloor>q\<rfloor>; r = q - of_int n
      in if r < 1 / 2 then n else if 1 / 2 < r then n + 1 else if even n then n else n + 1)"

definition toDouble :: "rat \<Rightarrow> rat" where
  "toDouble x =
     (if x = 0 then 0
      else (let ulp = pow2 (exponentOf \<bar>x\<bar> - 52)
            in sgn x * of_int (roundHalfEven (\<bar>x\<bar> / ulp)) * ulp))"

definition Number :: "nat \<Rightarrow> rat" where
  "Number n = toDouble (of_nat n)"

text \<open>The score of one keeper, as the loop body computes it.\<close>

definition keeperScore :: "keeper \<Rightarrow> rat" where
  "keeperScore k =
     (let totalBatches = toDouble (Number (successfulBatches k) + Number (failedBatches k));
          successRate = (if totalBatches > 0
                         then toDouble (Number (successfulBatches k) / totalBatches)
                         else 1 / 2);
          score = toDouble (Number (reputationScore k) * successRate)
      in score)"

text \<open>
  The loop over the fetched addresses. A rejected \<open>keepers\<close> query is caught and the
  address skipped; an inactive or slashed keeper is skipped by \<open>continue\<close>.
\<close>

fun selectLoop :: "keeper_ledger \<Rightarrow> string list \<Rightarrow> bestKeeper option \<times> rat \<Rightarrow> bestKeeper option \<times> rat" where
  "selectLoop L [] st = st"
| "selectLoop L (a # rest) (best, bestScore) =
     (case keepers L a of
        Inl error \<Rightarrow> selectLoop L rest (best, bestScore)
      | Inr k \<Rightarrow>
          if \<not> isActive k \<or> isSlashed k then selectLoop L rest (best, bestScore)
          else if keeperScore k > bestScore
               then selectLoop L rest
                      (Some \<lparr> bk_address = a, bk_publicKey = publicKey k, bk_score = keeperScore k \<rparr>,
                       keeperScore k)
               else selectLoop L rest (best, bestScore))"

text \<open>\<open>Promise.all\<close> over the address queries: the first rejection rejects the whole.\<close>

fun fetchAll :: "(nat \<Rightarrow> js_error + string) \<Rightarrow> nat list \<Rightarrow> js_error + string list" where
  "fetchAll q [] = Inr []"
| "fetchAll q (i # is) =
     (case q i of
        Inl e \<Rightarrow> Inl e
      | Inr a \<Rightarrow> (case fetchAll q is of Inl e \<Rightarrow> Inl e | Inr as \<Rightarrow> Inr (a # as)))"

definition getActiveKeeperPublicKey :: "keeper_ledger \<Rightarrow> js_error + string" where
  "getActiveKeeperPublicKey L =
     (case getContract L of
        Inl e \<Rightarrow> Inl e
      | Inr contract \<Rightarrow>
          (let keeperCount = activeKeeperList_length in
           if keeperCount = 0 then Inl (Error ''No active keepers available'')
           else (case fetchAll (activeKeeperList L) [0..<min 10 keeperCount] of
                   Inl e \<Rightarrow> Inl e
                 | Inr keeperAddresses \<Rightarrow>
                     (case selectLoop L keeperAddresses (None, 0) of
                        (None, bestScore) \<Rightarrow> Inl (Error ''No suitable keeper found'')
                      | (Some bestKeeper, bestScore) \<Rightarrow> Inr (bk_publicKey bestKeeper)))))"

text \<open>
  A ledger that lists one keeper, active and not slashed, with reputation 100 and ten
  successful batches out of ten; and two keepers whose scores differ in doubles only.
\<close>

definition soleKeeper :: keeper where
  "soleKeeper = \<lparr> publicKey = ''0x04aa'', reputationScore = 100, successfulBatches = 10,
                   failedBatches = 0, isActive = True, isSlashed = False \<rparr>"

definition soleLedger :: keeper_ledger where
  "soleLedger = \<lparr> getContract = Inr (),
                   activeKeeperList = (\<lambda>i. if i = 0 then Inr ''0xA1''
                                           else Inl (Error ''call revert exception'')),
                   keepers = (\<lambda>a. if a = ''0xA1'' then Inr soleKeeper
                                  else Inl (Error ''call revert exception'')) \<rparr>"

definition keeperA :: keeper where
  "keeperA = \<lparr> publicKey = ''0x04aa'', reputationScore = 49, successfulBatches = 1,
                failedBatches = 48, isActive = True, isSlashed = False \<rparr>"

definition keeperB :: keeper where
  "keeperB = \<lparr> publicKey = ''0x04bb'', reputationScore = 1, successfulBatches = 1,
                failedBatches = 0, isActive = True, isSlashed = False \<rparr>"

section \<open>Retrying (\<open>ErrorHandler\<close>)\<close>

text \<open>\<open>String.prototype.includes\<close> (\<open>includes\<close> is reserved in Isabelle).\<close>

fun includesStr :: "string \<Rightarrow> string \<Rightarrow> bool" where
  "includesStr [] needle = (needle = [])"
| "includesStr (c # cs) needle = (startsWith (c # cs) needle \<or> includesStr cs needle)"

fun errorName :: "js_error \<Rightarrow> string" where
  "errorName (Error m) = ''Error''"
| "errorName (TypeError m) = ''TypeError''"
| "errorName (SyntaxError m) = ''SyntaxError''"
| "errorName (RangeError m) = ''RangeError''"
| "errorName (ValidationError errs) = ''TradePrivateError''"
| "errorName ThrownUndefined = ''undefined''"

text \<open>\<open>error.message || error.toString()\<close>: an empty message gives way to the name.\<close>

definition messageOrString :: "js_error \<Rightarrow> string" where
  "messageOrString error = (if message error = [] then errorName error else message error)"

definition isRetryableError :: "js_error \<Rightarrow> bool" where
  "isRetryableError error =
     (let msg = messageOrString error in
      if includesStr msg ''network'' \<or> includesStr msg ''timeout'' \<or>
         includesStr msg ''ETIMEDOUT'' \<or> includesStr msg ''ECONNREFUSED'' then True
      else if includesStr msg ''nonce'' \<or> includesStr msg ''replacement fee too low'' then True
      else if includesStr msg ''rate limit'' \<or> includesStr msg ''429'' then True
      else if includesStr msg ''user rejected'' \<or> includesStr msg ''User denied'' then False
      else if includesStr msg ''insufficient funds'' \<or> includesStr msg ''InsufficientBalance''
        then False
      else if includesStr msg ''revert'' \<or> includesStr msg ''NullifierAlreadyUsed'' \<or>
              includesStr msg ''AccountDoesNotExist'' then False
      else if includesStr msg ''InvalidProof'' \<or> includesStr msg ''proof'' then False
      else True)"

text \<open>
  \<open>withRetry(fn, {shouldRetry})\<close> with the default \<open>maxRetries = 3\<close>. The operation \<open>fn\<close>
  acts on a state and is told which attempt it is, so that it can see the world as it is
  at that attempt; the waiting between attempts changes nothing else. \<open>withRetry_loop\<close>
  is the \<open>for\<close> loop from index \<open>i\<close>, \<open>lastError\<close> its variable of that name.
\<close>

definition maxRetries :: nat where
  "maxRetries = 3"

function withRetry_loop ::
  "(nat \<Rightarrow> 's \<Rightarrow> (js_error + 'a) \<times> 's) \<Rightarrow> (js_error \<Rightarrow> bool) \<Rightarrow> nat \<Rightarrow> js_error option \<Rightarrow> 's
     \<Rightarrow> (js_error + 'a) \<times> 's" where
  "withRetry_loop fn shouldRetry i lastError s =
     (if i \<le> maxRetries then
        (case fn i s of
           (Inr r, s') \<Rightarrow> (Inr r, s')
         | (Inl error, s') \<Rightarrow>
             if i = maxRetries \<or> \<not> shouldRetry error then (Inl error, s')
             else withRetry_loop fn shouldRetry (i + 1) (Some error) s')
      else (case lastError of
              None \<Rightarrow> (Inl ThrownUndefined, s)
            | Some error \<Rightarrow> (Inl error, s)))"
  by pat_completeness auto
termination
  by (relation "measure (\<lambda>(fn, shouldRetry, i, lastError, s). maxRetries + 1 - i)") auto

declare withRetry_loop.simps [simp del]

definition withRetry ::
  "(nat \<Rightarrow> 's \<Rightarrow> (js_error + 'a) \<times> 's) \<Rightarrow> (js_error \<Rightarrow> bool) \<Rightarrow> 's \<Rightarrow> (js_error + 'a) \<times> 's" where
  "withRetry fn shouldRetry s = withRetry_loop fn shouldRetry 0 None s"

section \<open>Account reveal (\<open>accountManager.js\<close>)\<close>

definition COMMIT_REVEAL_DELAY :: int where
  "COMMIT_REVEAL_DELAY = 240"

definition mockAccountProof :: "int list" where
  "mockAccountProof = [0, 0, 0, 0, 0, 0, 0, 0]"

record PendingCommit =
  commitment :: FieldElement
  nonce :: int
  commitHash :: string
  blockNumber :: int
  timestamp :: int

record PrivateAccountManager =
  accountCommitment :: "FieldElement option"
  accountNonce :: "int option"
  pendingCommit :: "PendingCommit option"

text \<open>The calls that reach the ledger contract with a signer, in the order they are made.\<close>

datatype ledger_call =
    RevealTradingAccount string int "int list"
  | UsedNullifiers string

text \<open>
  The world as one attempt of an orchestrated operation finds it: \<open>ethers.getAddress\<close>,
  the contract handle with signer, the provider's block number, the balance query, the
  reveal transaction (its hash, or the rejection), the receipt, whether
  \<open>saveAccountInfo\<close> completes, the 32 bytes \<open>crypto.getRandomValues\<close> delivers, the
  \<open>usedNullifiers\<close> query, and the read-only handle of the keeper selection.
\<close>

record ledger_view =
  getAddress :: "string \<Rightarrow> js_error + string"
  getSignerContract :: "js_error + unit"
  getBlockNumber :: "js_error + int"
  balances :: "string \<Rightarrow> js_error + int"
  revealTradingAccount :: "string \<Rightarrow> int \<Rightarrow> int list \<Rightarrow> js_error + string"
  wait :: "js_error + int"
  saveAccountInfo :: "js_error + unit"
  getRandomValues :: bytes
  usedNullifiers :: "string \<Rightarrow> js_error + bool"
  keeperLedger :: keeper_ledger

record reveal_result =
  revealedCommitment :: string
  success :: bool
  txHash :: string

text \<open>\<open>InputValidator.sanitizeAddress\<close>.\<close>

definition sanitizeAddress :: "(string \<Rightarrow> js_error + string) \<Rightarrow> string \<Rightarrow> js_error + string" where
  "sanitizeAddress ethers_getAddress addr =
     (if addr = [] then Inl (ValidationError [''Address is required''])
      else (let a = trim addr;
                a' = (if startsWith a ''0x'' then a else ''0x'' @ a)
            in case ethers_getAddress a' of
                 Inl e \<Rightarrow> Inl (ValidationError [''Invalid Ethereum address''])
               | Inr checksummed \<Rightarrow> Inr checksummed))"

text \<open>
  The body handed to \<open>withRetry\<close> by \<open>revealAccount\<close>. The state is the manager and the
  calls made so far; a block number is a Number holding an integer, printed in decimal
  by the template string.
\<close>

definition revealAttempt ::
  "ledger_view \<Rightarrow> string \<Rightarrow> PrivateAccountManager \<times> ledger_call list
     \<Rightarrow> (js_error + reveal_result) \<times> PrivateAccountManager \<times> ledger_call list" where
  "revealAttempt w userAddress st =
     (case st of (this, calls) \<Rightarrow>
      case sanitizeAddress (getAddress w) userAddress of
        Inl e \<Rightarrow> (Inl e, st)
      | Inr sanitizedAddress \<Rightarrow>
      case getSignerContract w of
        Inl e \<Rightarrow> (Inl e, st)
      | Inr contract \<Rightarrow>
      case getBlockNumber w of
        Inl e \<Rightarrow> (Inl e, st)
      | Inr currentBlock \<Rightarrow>
      case pendingCommit this of
        None \<Rightarrow> (Inl (TypeError ''Cannot read properties of null (reading 'blockNumber')''), st)
      | Some pc \<Rightarrow>
      let blocksPassed = currentBlock - blockNumber pc in
      if blocksPassed < COMMIT_REVEAL_DELAY then
        (Inl (Error (''Must wait '' @ bigintToString 10 (COMMIT_REVEAL_DELAY - blocksPassed)
                     @ '' more blocks'')), st)
      else
      case balances w sanitizedAddress of
        Inl e \<Rightarrow> (Inl e, st)
      | Inr balance \<Rightarrow>
      let zkProof = mockAccountProof;
          calls' = calls @ [RevealTradingAccount (toHex (commitment pc)) (nonce pc) zkProof] in
      case revealTradingAccount w (toHex (commitment pc)) (nonce pc) zkProof of
        Inl e \<Rightarrow> (Inl e, (this, calls'))
      | Inr hash \<Rightarrow>
      case wait w of
        Inl e \<Rightarrow> (Inl e, (this, calls'))
      | Inr receipt \<Rightarrow>
      let this' = this \<lparr> accountCommitment := Some (commitment pc),
                         accountNonce := Some (nonce pc) \<rparr> in
      case saveAccountInfo w of
        Inl e \<Rightarrow> (Inl e, (this', calls'))
      | Inr saved \<Rightarrow>
        (Inr \<lparr> revealedCommitment = toHex (commitment pc), success = True, txHash = hash \<rparr>,
         (this' \<lparr> pendingCommit := None \<rparr>, calls')))"

definition revealAccount ::
  "(nat \<Rightarrow> ledger_view) \<Rightarrow> string \<Rightarrow> PrivateAccountManager \<times> ledger_call list
     \<Rightarrow> (js_error + reveal_result) \<times> PrivateAccountManager \<times> ledger_call list" where
  "revealAccount world userAddress st =
     (if pendingCommit (fst st) = None then (Inl (Error ''No pending commit found''), st)
      else withRetry (\<lambda>i. revealAttempt (world i) userAddress) isRetryableError st)"



text \<open>A pending commit made at block 1000, and the world at a given block.\<close>

definition examplePending :: PendingCommit where
  "examplePending = \<lparr> commitment = \<lparr> value = 77 \<rparr>, nonce = 5,
                       commitHash = ''0x5e1f'', blockNumber = 1000, timestamp = 0 \<rparr>"

definition exampleManager :: PrivateAccountManager where
  "exampleManager = \<lparr> accountCommitment = None, accountNonce = None,
                       pendingCommit = Some examplePending \<rparr>"

definition exampleAddress :: string where
  "exampleAddress = ''0x00000000000000000000000000000000000000A1''"

definition worldAt :: "int \<Rightarrow> bytes \<Rightarrow> ledger_view" where
  "worldAt currentBlock random =
     \<lparr> getAddress = (\<lambda>a. Inr a), getSignerContract = Inr (), getBlockNumber = Inr currentBlock,
       balances = (\<lambda>a. Inr 1000000), revealTradingAccount = (\<lambda>c n p. Inr ''0x7a11''),
       wait = Inr currentBlock, saveAccountInfo = Inr (), getRandomValues = random,
       usedNullifiers = (\<lambda>n. Inr False), keeperLedger = soleLedger \<rparr>"


section \<open>Order submission (\<open>orderManager.js\<close>, \<open>commitmentGenerator.js\<close>, \<open>nullifierGenerator.js\<close>)\<close>

text \<open>
  The formatted order of \<open>formatOrderData\<close>. Its amounts are decimal strings; \<open>orderType\<close>
  and \<open>leverage\<close> are Numbers, taken to hold integers. The field \<open>size\<close> of the source is
  \<open>orderSize\<close> here.
\<close>

record OrderData =
  market :: string
  orderSize :: string
  price :: string
  isLong :: bool
  isReduceOnly :: bool
  orderType :: int
  leverage :: int
  tpPrice :: string
  slPrice :: string

text \<open>\<open>x || d\<close> on a string and on a Number.\<close>

definition orString :: "string \<Rightarrow> string \<Rightarrow> string" where
  "orString x d = (if x = [] then d else x)"

definition orNumber :: "int \<Rightarrow> int \<Rightarrow> int" where
  "orNumber x d = (if x = 0 then d else x)"

fun joinWith :: "char \<Rightarrow> string list \<Rightarrow> string" where
  "joinWith sep [] = []"
| "joinWith sep [p] = p"
| "joinWith sep (p # ps) = p @ sep # joinWith sep ps"

definition serializeOrderData :: "OrderData \<Rightarrow> string" where
  "serializeOrderData orderData =
     joinWith CHR ''|''
       [orString (market orderData) ''0x0'',
        orString (orderSize orderData) ''0'',
        orString (price orderData) ''0'',
        bigintToString 10 (orNumber (orderType orderData) 0),
        bigintToString 10 (if isLong orderData then 1 else 0),
        bigintToString 10 (orNumber (leverage orderData) 1),
        orString (tpPrice orderData) ''0'',
        orString (slPrice orderData) ''0'']"

text \<open>\<open>TextEncoder.encode\<close>: UTF-8, for the code units below 256.\<close>

definition utf8 :: "string \<Rightarrow> bytes" where
  "utf8 s = concat (map (\<lambda>c. let n = (of_char c :: nat) in
                               if n < 128 then [n] else [192 + n div 64, 128 + n mod 64]) s)"

fun hashOrderData_loop :: "FieldElement \<Rightarrow> bytes \<Rightarrow> FieldElement" where
  "hashOrderData_loop hash [] = hash"
| "hashOrderData_loop hash (b # bs) =
     hashOrderData_loop (addFE (mulFE hash (reduce 31)) (reduce (int b))) bs"

definition hashOrderData :: "string \<Rightarrow> FieldElement" where
  "hashOrderData data = hashOrderData_loop (reduce 1) (utf8 data)"

definition generateOrderCommitment :: "OrderData \<Rightarrow> js_value \<Rightarrow> js_error + FieldElement" where
  "generateOrderCommitment orderData orderNonce =
     (case asFieldElement orderNonce of
        Inl e \<Rightarrow> Inl e
      | Inr nonceElement \<Rightarrow>
          Inr (addFE (hashOrderData (serializeOrderData orderData)) nonceElement))"

definition generateOrderNullifier ::
  "js_value \<Rightarrow> FieldElement \<Rightarrow> js_value \<Rightarrow> js_error + string" where
  "generateOrderNullifier privateKey orderCommitment orderNonce =
     (case asFieldElement privateKey of
        Inl e \<Rightarrow> Inl e
      | Inr privKeyElement \<Rightarrow>
          (case asFieldElement orderNonce of
             Inl e \<Rightarrow> Inl e
           | Inr nonceElement \<Rightarrow>
               Inr (toHex (addFE (addFE privKeyElement (mulFE orderCommitment (reduce 2)))
                                 (mulFE nonceElement (reduce 3))))))"

text \<open>
  \<open>generateOrderNonce\<close> on the 32 bytes drawn: the high nibble of the first byte is
  cleared, the bytes are written as hexadecimal digits and read as a BigInt.
\<close>

definition byteHex :: "nat \<Rightarrow> string" where
  "byteHex b = padStart 2 CHR ''0'' (natToString 16 b)"

definition generateOrderNonce :: "bytes \<Rightarrow> js_error + int" where
  "generateOrderNonce random =
     (let bs = random [0 := (random ! 0) AND 15] in
      BigInt_string (''0x'' @ concat (map byteHex bs)))"

text \<open>
  The three values one attempt computes, from the key, the formatted order and the bytes
  drawn in that attempt.
\<close>

record order_values =
  orderNonce :: int
  orderCommitment :: FieldElement
  nullifier :: string

definition orderValues :: "js_value \<Rightarrow> OrderData \<Rightarrow> bytes \<Rightarrow> js_error + order_values" where
  "orderValues privateKey orderData random =
     (case generateOrderNonce random of
        Inl e \<Rightarrow> Inl e
      | Inr n \<Rightarrow>
     (case generateOrderCommitment orderData (VBigInt n) of
        Inl e \<Rightarrow> Inl e
      | Inr c \<Rightarrow>
     (case generateOrderNullifier privateKey c (VBigInt n) of
        Inl e \<Rightarrow> Inl e
      | Inr nf \<Rightarrow> Inr \<lparr> orderNonce = n, orderCommitment = c, nullifier = nf \<rparr>)))"

record submit_result =
  submittedNullifier :: string
  submittedTxHash :: string

text \<open>
  The body handed to \<open>withRetry\<close> by \<open>submitPrivateOrder\<close>. \<open>formatOrderData\<close> works on
  floating-point amounts through \<open>ethers.parseUnits\<close>; its result for the given
  parameters is a parameter here. The nonce is drawn inside the body. After the keeper's
  key is found the body calls \<open>OrderEncryption.encryptOrder\<close>; \<open>OrderEncryption\<close> is the
  class exported by \<open>orderEncryption.js\<close>, which has no static member of that name, so
  the call throws a TypeError and the rest of the body (size check, proof,
  \<open>submitOrderPrivate\<close>, bookkeeping) is never reached.
\<close>

definition submitAttempt ::
  "ledger_view \<Rightarrow> js_value \<Rightarrow> (js_error + OrderData) \<Rightarrow> ledger_call list
     \<Rightarrow> (js_error + submit_result) \<times> ledger_call list" where
  "submitAttempt w privateKey formatOrderData calls =
     (case getSignerContract w of
        Inl e \<Rightarrow> (Inl e, calls)
      | Inr contract \<Rightarrow>
      case generateOrderNonce (getRandomValues w) of
        Inl e \<Rightarrow> (Inl e, calls)
      | Inr n \<Rightarrow>
      case formatOrderData of
        Inl e \<Rightarrow> (Inl e, calls)
      | Inr orderData \<Rightarrow>
      case generateOrderCommitment orderData (VBigInt n) of
        Inl e \<Rightarrow> (Inl e, calls)
      | Inr c \<Rightarrow>
      case generateOrderNullifier privateKey c (VBigInt n) of
        Inl e \<Rightarrow> (Inl e, calls)
      | Inr nf \<Rightarrow>
      let calls' = calls @ [UsedNullifiers nf] in
      case isNullifierUsed (usedNullifiers w) nf of
        Inl e \<Rightarrow> (Inl e, calls')
      | Inr isUsed \<Rightarrow>
      if isUsed then (Inl (Error ''Order nullifier already used - please try again''), calls')
      else
      case getActiveKeeperPublicKey (keeperLedger w) of
        Inl e \<Rightarrow> (Inl e, calls')
      | Inr keeperPubKey \<Rightarrow>
        (Inl (TypeError ''OrderEncryption.encryptOrder is not a function''), calls'))"

definition shouldRetryOrder :: "js_error \<Rightarrow> bool" where
  "shouldRetryOrder error =
     (if includesStr (message error) ''nullifier'' then False else isRetryableError error)"

definition submitPrivateOrder ::
  "(nat \<Rightarrow> ledger_view) \<Rightarrow> FieldElement option \<Rightarrow> js_value \<Rightarrow> (js_error + unit)
     \<Rightarrow> (js_error + OrderData) \<Rightarrow> ledger_call list
     \<Rightarrow> (js_error + submit_result) \<times> ledger_call list" where
  "submitPrivateOrder world accountCommitment' privateKey validateOrderParams formatOrderData calls =
     (if accountCommitment' = None then (Inl (Error ''No private account found''), calls)
      else (case validateOrderParams of
              Inl e \<Rightarrow> (Inl e, calls)
            | Inr valid \<Rightarrow>
                withRetry (\<lambda>i. submitAttempt (world i) privateKey formatOrderData)
                  shouldRetryOrder calls))"

text \<open>
  A formatted market order, a trading key, and a world in which the platform draws the
  bytes \<open>00 \<dots> 00 01\<close> at the first attempt, \<open>00 \<dots> 00 02\<close> at the second, and so on.
  \<open>flakyWorld\<close> is a world for the reveal: 240 blocks have passed, the first reveal
  transaction times out, the second is accepted.
\<close>

definition exampleOrder :: OrderData where
  "exampleOrder = \<lparr> market = ''0x0000000000000000000000000000000000000001'',
                     orderSize = ''1000000000'', price = ''0'', isLong = True,
                     isReduceOnly = False, orderType = 0, leverage = 10,
                     tpPrice = ''0'', slPrice = ''0'' \<rparr>"

definition exampleKey :: js_value where
  "exampleKey = VFieldElement \<lparr> value = 5 \<rparr>"

definition orderWorld :: "nat \<Rightarrow> ledger_view" where
  "orderWorld i = worldAt 2000 (replicate 31 0 @ [i + 1])"

definition flakyWorld :: "nat \<Rightarrow> ledger_view" where
  "flakyWorld i =
     (if i = 0 then (worldAt 1240 []) \<lparr> revealTradingAccount := (\<lambda>c n p. Inl (Error ''timeout'')) \<rparr>
      else worldAt 1241 [])"

text \<open>The values the four attempts in \<open>orderWorld\<close> compute.\<close>

definition exampleValues :: "nat \<Rightarrow> order_values" where
  "exampleValues i =
     [\<lparr> orderNonce = 1,
        orderCommitment = \<lparr> value = 9074240907964926257118201147682932489327558329938006028187344496231156313319 \<rparr>,
        nullifier = ''0x281fad3bc5da0ae07fbf8a03a4454b5ec06372c5024c1b479655e5c5e428d9d6'' \<rparr>,
      \<lparr> orderNonce = 2,
        orderCommitment = \<lparr> value = 9074240907964926257118201147682932489327558329938006028187344496231156313320 \<rparr>,
        nullifier = ''0x281fad3bc5da0ae07fbf8a03a4454b5ec06372c5024c1b479655e5c5e428d9db'' \<rparr>,
      \<lparr> orderNonce = 3,
        orderCommitment = \<lparr> value = 9074240907964926257118201147682932489327558329938006028187344496231156313321 \<rparr>,
        nullifier = ''0x281fad3bc5da0ae07fbf8a03a4454b5ec06372c5024c1b479655e5c5e428d9e0'' \<rparr>,
      \<lparr> orderNonce = 4,
        orderCommitment = \<lparr> value = 9074240907964926257118201147682932489327558329938006028187344496231156313322 \<rparr>,
        nullifier = ''0x281fad3bc5da0ae07fbf8a03a4454b5ec06372c5024c1b479655e5c5e428d9e5'' \<rparr>] ! i"


section \<open>Mnemonic restore (\<open>hdKeyDerivation.js\<close>)\<close>

definition BIP39_WORDLIST :: "string list" where
  "BIP39_WORDLIST =
   [''abandon'', ''ability'', ''able'', ''about'', ''above'', ''absent'', ''absorb'', ''abstract'',
    ''absurd'', ''abuse'', ''access'', ''accident'', ''account'', ''accuse'', ''achieve'', ''acid'',
    ''acoustic'', ''acquire'', ''across'', ''act'', ''action'', ''actor'', ''actress'', ''actual'',
    ''adapt'', ''add'', ''addict'', ''address'', ''adjust'', ''admit'', ''adult'', ''advance'',
    ''advice'', ''aerobic'', ''affair'', ''afford'', ''afraid'', ''again'', ''against'', ''age'',
    ''agent'', ''agree'', ''ahead'', ''aim'', ''air'', ''airport'', ''aisle'', ''alarm'',
    ''album'', ''alcohol'', ''alert'', ''alien'', ''all'', ''alley'', ''allow'', ''almost'',
    ''alone'', ''alpha'', ''already'', ''also'', ''alter'', ''always'', ''amateur'', ''amazing'',
    ''among'', ''amount'', ''amused'', ''analyst'', ''anchor'', ''ancient'', ''anger'', ''angle'',
    ''angry'', ''animal'', ''ankle'', ''announce'', ''annual'', ''another'', ''answer'', ''antenna'',
    ''antique'', ''anxiety'', ''any'', ''apart'', ''apology'', ''appear'', ''apple'', ''approve'',
    ''april'', ''arch'', ''arctic'', ''area'', ''arena'', ''argue'', ''arm'', ''armed'',
    ''armor'', ''army'', ''around'', ''arrange'', ''arrest'', ''arrive'', ''arrow'', ''art'']"

text \<open>\<open>toLowerCase\<close> on the code units below 256, and \<open>split(/\s+/)\<close>.\<close>

definition toLowerChar :: "char \<Rightarrow> char" where
  "toLowerChar c =
     (let n = (of_char c :: nat) in
      if (65 \<le> n \<and> n \<le> 90) \<or> (192 \<le> n \<and> n \<le> 222 \<and> n \<noteq> 215) then char_of (n + 32) else c)"

definition toLowerCase :: "string \<Rightarrow> string" where
  "toLowerCase s = map toLowerChar s"

function splitWhiteSpace_loop :: "string \<Rightarrow> string \<Rightarrow> string list" where
  "splitWhiteSpace_loop cur [] = [rev cur]"
| "splitWhiteSpace_loop cur (c # cs) =
     (if isWhiteSpace c then rev cur # splitWhiteSpace_loop [] (dropWhile isWhiteSpace cs)
      else splitWhiteSpace_loop (c # cur) cs)"
  by pat_completeness auto
termination
  by (relation "measure (\<lambda>(cur, s). length s)")
     (auto simp: less_Suc_eq_le length_dropWhile_le)

definition splitWhiteSpace :: "string \<Rightarrow> string list" where
  "splitWhiteSpace s = splitWhiteSpace_loop [] s"

definition validateMnemonic :: "string \<Rightarrow> bool" where
  "validateMnemonic mnemonic =
     (let words = splitWhiteSpace (toLowerCase (trim mnemonic)) in
      if length words \<notin> {12, 15, 18, 21, 24} then False
      else if \<exists>word\<in>set words. word \<notin> set BIP39_WORDLIST then False
      else True)"

text \<open>
  The node \<open>deriveMasterKey\<close> returns (its field \<open>privateKey\<close> is \<open>nodeKey\<close> here), and
  the wallet. PBKDF2 and HMAC are the platform's \<open>crypto.subtle\<close>; they are parameters.
\<close>

record HDNode =
  nodeKey :: FieldElement
  chainCode :: bytes
  depth :: nat
  parentFingerprint :: bytes
  childNumber :: nat

record HDWallet =
  seed :: "bytes option"
  masterKey :: "HDNode option"
  initialized :: bool

record subtle =
  pbkdf2_sha512 :: "bytes \<Rightarrow> bytes \<Rightarrow> nat \<Rightarrow> nat \<Rightarrow> js_error + bytes"
  hmac_sha512 :: "bytes \<Rightarrow> bytes \<Rightarrow> js_error + bytes"

definition deriveMasterKey :: "subtle \<Rightarrow> HDWallet \<Rightarrow> js_error + HDNode" where
  "deriveMasterKey crypto this =
     (case seed this of
        None \<Rightarrow> Inl (Error ''Seed not available'')
      | Some sd \<Rightarrow>
          (case hmac_sha512 crypto (utf8 ''ed25519 seed'') sd of
             Inl e \<Rightarrow> Inl e
           | Inr hash \<Rightarrow>
               Inr \<lparr> nodeKey = fromBytes (take 32 hash), chainCode = take 32 (drop 32 hash),
                     depth = 0, parentFingerprint = [0, 0, 0, 0], childNumber = 0 \<rparr>))"

definition seedFromMnemonic :: "subtle \<Rightarrow> string \<Rightarrow> HDWallet \<Rightarrow> (js_error + bytes) \<times> HDWallet" where
  "seedFromMnemonic crypto mnemonic this =
     (case pbkdf2_sha512 crypto (utf8 mnemonic) (utf8 (''mnemonic'' @ [])) 2048 512 of
        Inl e \<Rightarrow> (Inl e, this)
      | Inr seedBits \<Rightarrow>
          (let this1 = this \<lparr> seed := Some seedBits \<rparr> in
           case deriveMasterKey crypto this1 of
             Inl e \<Rightarrow> (Inl e, this1)
           | Inr node \<Rightarrow> (Inr seedBits, this1 \<lparr> masterKey := Some node, initialized := True \<rparr>)))"

definition restoreFromMnemonic :: "subtle \<Rightarrow> string \<Rightarrow> HDWallet \<Rightarrow> (js_error + bool) \<times> HDWallet" where
  "restoreFromMnemonic crypto mnemonic this =
     (if \<not> validateMnemonic mnemonic then (Inl (Error ''Invalid mnemonic phrase''), this)
      else (case seedFromMnemonic crypto mnemonic this of
              (Inl e, this') \<Rightarrow> (Inl e, this')
            | (Inr sd, this') \<Rightarrow> (Inr True, this')))"

text \<open>
  Four phrases of twelve listed words that differ in the last word only. In a phrase of
  twelve words the last word holds seven bits of entropy and the four checksum bits;
  \<open>abandon\<close>, \<open>ability\<close>, \<open>able\<close> and \<open>about\<close> are the words 0 to 3, so the four phrases
  carry the entropy zero with the checksums 0, 1, 2 and 3, and at most one of them has the
  checksum of that entropy: with SHA-256 it is 3 (\<open>about\<close>), with the exclusive or of
  \<open>calculateChecksum\<close> it is 0 (\<open>abandon\<close>); with neither is it 1 (\<open>ability\<close>).
\<close>

definition elevenAbandon :: string where
  "elevenAbandon =
     ''abandon abandon abandon abandon abandon abandon abandon abandon abandon abandon abandon ''"

definition emptyWallet :: HDWallet where
  "emptyWallet = \<lparr> seed = None, masterKey = None, initialized = False \<rparr>"

text \<open>A platform whose PBKDF2 and HMAC answer with fixed 64-byte strings.\<close>

definition exampleSubtle :: subtle where
  "exampleSubtle =
     \<lparr> pbkdf2_sha512 = (\<lambda>password salt iterations bits. Inr (replicate 64 7)),
       hmac_sha512 = (\<lambda>key data. Inr (replicate 64 0)) \<rparr>"

section \<open>Order encryption for a keeper (\<open>orderEncryption.js\<close>, \<open>zkConfig.js\<close>)\<close>

definition ZK_CONFIG_ENCRYPTED_ORDER_SIZE :: nat where
  "ZK_CONFIG_ENCRYPTED_ORDER_SIZE = 256"

definition ENCRYPTED_ORDER_SIZE :: nat where
  "ENCRYPTED_ORDER_SIZE = 512"

text \<open>
  What the class takes from the platform: the ECDH agreement of the \<open>try\<close> block of
  \<open>generateSharedSecret\<close> (two \<open>importKey\<close>, \<open>deriveKey\<close>, \<open>exportKey\<close>) from the
  private-key bytes and the public-key bytes, SHA-256, the twelve bytes drawn for the
  IV, AES-GCM in both directions (key, IV, data), the clock, and the JSON text of an
  order with its reading back.
\<close>

record platform =
  ecdhP256 :: "bytes \<Rightarrow> bytes \<Rightarrow> js_error + bytes"
  sha256 :: "bytes \<Rightarrow> js_error + bytes"
  randomIv :: bytes
  aesGcmEncrypt :: "bytes \<Rightarrow> bytes \<Rightarrow> bytes \<Rightarrow> js_error + bytes"
  aesGcmDecrypt :: "bytes \<Rightarrow> bytes \<Rightarrow> bytes \<Rightarrow> js_error + bytes"
  now :: int
  stringify :: "OrderData \<Rightarrow> int \<Rightarrow> bytes"
  parse :: "bytes \<Rightarrow> js_error + OrderData"

text \<open>
  \<open>bigintToBytes(value, length)\<close>. The loop computes \<open>v & 0xFFn\<close>; with a \<open>v\<close> that is
  not a BigInt the operator throws, whatever the other value is.
\<close>

fun bigintToBytes_loop :: "int \<Rightarrow> nat \<Rightarrow> bytes \<Rightarrow> bytes" where
  "bigintToBytes_loop v 0 bs = bs"
| "bigintToBytes_loop v (Suc i) bs = bigintToBytes_loop (drop_bit 8 v) i (nat (v AND 255) # bs)"

definition mixError :: js_error where
  "mixError = TypeError ''Cannot mix BigInt and other types, use explicit conversions''"

fun bigintToBytes :: "js_value \<Rightarrow> nat \<Rightarrow> js_error + bytes" where
  "bigintToBytes (VBigInt v) len = Inr (bigintToBytes_loop v len [])"
| "bigintToBytes v len = (if len = 0 then Inr [] else Inl mixError)"

text \<open>\<open>hex.replace('0x', '')\<close> removes the first occurrence, wherever it is.\<close>

fun replace0x :: "string \<Rightarrow> string" where
  "replace0x [] = []"
| "replace0x (c # cs) = (if startsWith (c # cs) ''0x'' then drop 2 (c # cs) else c # replace0x cs)"

fun hexToBytes :: "js_value \<Rightarrow> js_error + bytes" where
  "hexToBytes (VString hex) = Inr (hexPairs (replace0x hex))"
| "hexToBytes VUndefined =
     Inl (TypeError ''Cannot read properties of undefined (reading 'replace')'')"
| "hexToBytes v = Inl (TypeError ''hex.replace is not a function'')"

text \<open>
  \<open>generateSharedSecret\<close>: whatever the \<open>try\<close> block throws is caught and the field
  multiplication takes over. Either way the value returned is a Uint8Array.
\<close>

definition sharedSecretFallback :: "js_value \<Rightarrow> js_value \<Rightarrow> js_error + bytes" where
  "sharedSecretFallback privKey pubKey =
     (case new_FieldElement privKey of
        Inl e \<Rightarrow> Inl e
      | Inr privateKeyElement \<Rightarrow>
     (case fromString pubKey of
        Inl e \<Rightarrow> Inl e
      | Inr publicKeyElement \<Rightarrow>
          bigintToBytes (VBigInt (value (mulFE privateKeyElement publicKeyElement))) 32))"

definition generateSharedSecret :: "platform \<Rightarrow> js_value \<Rightarrow> js_value \<Rightarrow> js_error + bytes" where
  "generateSharedSecret p privKey pubKey =
     (case (case bigintToBytes privKey 32 of
              Inl e \<Rightarrow> Inl e
            | Inr privateKeyBuffer \<Rightarrow>
                (case hexToBytes pubKey of
                   Inl e \<Rightarrow> Inl e
                 | Inr publicKeyBuffer \<Rightarrow> ecdhP256 p privateKeyBuffer publicKeyBuffer)) of
        Inr exported \<Rightarrow> Inr exported
      | Inl error \<Rightarrow> sharedSecretFallback privKey pubKey)"

definition deriveEncryptionKey :: "platform \<Rightarrow> js_value \<Rightarrow> js_error + bytes" where
  "deriveEncryptionKey p sharedSecret =
     (case bigintToBytes sharedSecret 32 of
        Inl e \<Rightarrow> Inl e
      | Inr secretBytes \<Rightarrow> sha256 p secretBytes)"

fun derivePublicKey :: "js_value \<Rightarrow> js_error + string" where
  "derivePublicKey (VBigInt privKey) = Inr (bigintToString 16 ((privKey * 2) smod FIELD_SIZE))"
| "derivePublicKey v = Inl mixError"

record aes_result =
  ciphertext :: bytes
  aes_iv :: bytes
  aes_authTag :: bytes

definition encryptWithAES :: "platform \<Rightarrow> bytes \<Rightarrow> bytes \<Rightarrow> js_error + aes_result" where
  "encryptWithAES p data key =
     (let iv = randomIv p in
      case aesGcmEncrypt p key iv data of
        Inl e \<Rightarrow> Inl e
      | Inr encrypted \<Rightarrow>
          Inr \<lparr> ciphertext = take (length encrypted - 16) encrypted, aes_iv = iv,
                aes_authTag = drop (length encrypted - 16) encrypted \<rparr>)"

definition decryptWithAES :: "platform \<Rightarrow> bytes \<Rightarrow> bytes \<Rightarrow> bytes \<Rightarrow> bytes \<Rightarrow> js_error + bytes" where
  "decryptWithAES p ct key iv authTag = aesGcmDecrypt p key iv (ct @ authTag)"

definition serializeOrder :: "platform \<Rightarrow> OrderData \<Rightarrow> bytes" where
  "serializeOrder p orderData = stringify p orderData (now p)"

definition deserializeOrder :: "platform \<Rightarrow> bytes \<Rightarrow> js_error + OrderData" where
  "deserializeOrder p data = parse p data"

text \<open>\<open>hashOrder\<close>: the weighted sum of six field elements, printed in hexadecimal.\<close>

fun hashOrder_loop :: "FieldElement \<Rightarrow> nat \<Rightarrow> FieldElement list \<Rightarrow> FieldElement" where
  "hashOrder_loop hash i [] = hash"
| "hashOrder_loop hash i (x # xs) =
     hashOrder_loop (addFE hash (mulFE x (reduce (int (i + 1))))) (i + 1) xs"

definition hashOrder :: "OrderData \<Rightarrow> js_error + string" where
  "hashOrder orderData =
     (case fromString (VString (market orderData)) of
        Inl e \<Rightarrow> Inl e
      | Inr m \<Rightarrow>
     (case fromString (VString (orderSize orderData)) of
        Inl e \<Rightarrow> Inl e
      | Inr s \<Rightarrow>
     (case fromString (VString (orString (price orderData) ''0'')) of
        Inl e \<Rightarrow> Inl e
      | Inr pr \<Rightarrow>
          Inr (bigintToString 16
                 (value (hashOrder_loop (reduce 0) 0
                           [m, s, pr, reduce (if isLong orderData then 1 else 0),
                            reduce (orderType orderData), reduce (leverage orderData)]))))))"

record order_metadata =
  md_keeperPublicKey :: js_value
  md_timestamp :: int
  md_version :: string
  md_algorithm :: string

record EncryptedOrder =
  encrypted :: bytes
  iv :: bytes
  authTag :: bytes
  ephemeralPublicKey :: string
  metadata :: order_metadata
  orderHash :: string

definition wrapError :: "string \<Rightarrow> js_error + 'a \<Rightarrow> js_error + 'a" where
  "wrapError what r = (case r of Inl e \<Rightarrow> Inl (Error (what @ message e)) | Inr x \<Rightarrow> Inr x)"

definition encryptOrderForKeeper ::
  "platform \<Rightarrow> OrderData \<Rightarrow> js_value \<Rightarrow> js_value \<Rightarrow> js_error + EncryptedOrder" where
  "encryptOrderForKeeper p orderData keeperPublicKey userPrivateKey =
     wrapError ''Failed to encrypt order: ''
       (case generateSharedSecret p userPrivateKey keeperPublicKey of
          Inl e \<Rightarrow> Inl e
        | Inr sharedSecret \<Rightarrow>
        case deriveEncryptionKey p (VBytes sharedSecret) of
          Inl e \<Rightarrow> Inl e
        | Inr encryptionKey \<Rightarrow>
        case encryptWithAES p (serializeOrder p orderData) encryptionKey of
          Inl e \<Rightarrow> Inl e
        | Inr enc \<Rightarrow>
        case derivePublicKey userPrivateKey of
          Inl e \<Rightarrow> Inl e
        | Inr epk \<Rightarrow>
        case hashOrder orderData of
          Inl e \<Rightarrow> Inl e
        | Inr h \<Rightarrow>
            Inr \<lparr> encrypted = ciphertext enc, iv = aes_iv enc, authTag = aes_authTag enc,
                  ephemeralPublicKey = epk,
                  metadata = \<lparr> md_keeperPublicKey = keeperPublicKey, md_timestamp = now p,
                               md_version = ''1.0.0'', md_algorithm = ''ECDH-AES256-GCM'' \<rparr>,
                  orderHash = h \<rparr>)"

record decrypted_order =
  dec_orderData :: OrderData
  dec_metadata :: order_metadata
  decryptedAt :: int

definition decryptOrderForKeeper ::
  "platform \<Rightarrow> EncryptedOrder \<Rightarrow> js_value \<Rightarrow> js_error + decrypted_order" where
  "decryptOrderForKeeper p encryptedOrder keeperPrivateKey =
     wrapError ''Failed to decrypt order: ''
       (case generateSharedSecret p keeperPrivateKey (VString (ephemeralPublicKey encryptedOrder)) of
          Inl e \<Rightarrow> Inl e
        | Inr sharedSecret \<Rightarrow>
        case deriveEncryptionKey p (VBytes sharedSecret) of
          Inl e \<Rightarrow> Inl e
        | Inr decryptionKey \<Rightarrow>
        case decryptWithAES p (encrypted encryptedOrder) decryptionKey (iv encryptedOrder)
               (authTag encryptedOrder) of
          Inl e \<Rightarrow> Inl e
        | Inr decrypted \<Rightarrow>
        case deserializeOrder p decrypted of
          Inl e \<Rightarrow> Inl e
        | Inr orderData \<Rightarrow>
        case hashOrder orderData of
          Inl e \<Rightarrow> Inl e
        | Inr computedHash \<Rightarrow>
            if computedHash \<noteq> orderHash encryptedOrder
            then Inl (Error ''Order hash mismatch - possible tampering'')
            else Inr \<lparr> dec_orderData = orderData, dec_metadata = metadata encryptedOrder,
                       decryptedAt = now p \<rparr>)"

text \<open>
  The round trip of the specification: encrypt for the keeper, then decrypt with a
  private key. A keeper's public key is \<open>derivePublicKey\<close> of its private key.
\<close>

definition roundTrip ::
  "platform \<Rightarrow> OrderData \<Rightarrow> js_value \<Rightarrow> js_value \<Rightarrow> js_value \<Rightarrow> js_error + decrypted_order" where
  "roundTrip p orderData keeperPublicKey userPrivateKey keeperPrivateKey =
     (case encryptOrderForKeeper p orderData keeperPublicKey userPrivateKey of
        Inl e \<Rightarrow> Inl e
      | Inr encryptedOrder \<Rightarrow> decryptOrderForKeeper p encryptedOrder keeperPrivateKey)"

section \<open>Properties of the field arithmetic\<close>

lemma replicate_numeral:
  "replicate (numeral k) x = x # replicate (pred_numeral k) x"
  by (simp add: numeral_eq_Suc)

lemma FIELD_SIZE_pos: "0 < FIELD_SIZE"
  by (simp add: FIELD_SIZE_def)

lemma reduce_inField: "inField (reduce v)"
proof -
  have "\<bar>v smod FIELD_SIZE\<bar> < FIELD_SIZE"
    using FIELD_SIZE_pos by (simp add: signed_modulo_int_def abs_mult abs_sgn_eq)
  then show ?thesis
    by (auto simp: reduce_def inField_def Let_def)
qed

lemma new_FieldElement_inField: "new_FieldElement v = Inr x \<Longrightarrow> inField x"
  by (cases v) (auto simp: reduce_inField split: sum.splits)

text \<open>
  C9. Whatever the constructor accepts (a string, a bigint, an integral Number, and what
  it converts through \<open>BigInt\<close>), and whatever \<open>fromBytes\<close>, \<open>fromHex\<close> and
  \<open>fromString\<close> build, has its value in \<open>[0, p)\<close> with \<open>p\<close> the BN254 scalar-field
  modulus; every result of \<open>add\<close>, \<open>sub\<close>, \<open>mul\<close> and \<open>pow\<close> is a new element in
  \<open>[0, p)\<close>. The operators are functions of their operands and return a fresh record, so
  the operands are the same values after the call as before.
\<close>

theorem FieldElement_range:
  "FIELD_SIZE = 21888242871839275222246405745257275088548364400416034343698204186575808495617
   \<and> (\<forall>v x. new_FieldElement v = Inr x \<longrightarrow> 0 \<le> value x \<and> value x < FIELD_SIZE)
   \<and> (\<forall>bs. 0 \<le> value (fromBytes bs) \<and> value (fromBytes bs) < FIELD_SIZE)
   \<and> (\<forall>s x. fromHex s = Inr x \<longrightarrow> 0 \<le> value x \<and> value x < FIELD_SIZE)
   \<and> (\<forall>v x. fromString v = Inr x \<longrightarrow> 0 \<le> value x \<and> value x < FIELD_SIZE)
   \<and> (\<forall>a b r. add a b = Inr r \<longrightarrow> 0 \<le> value r \<and> value r < FIELD_SIZE)
   \<and> (\<forall>a b r. sub a b = Inr r \<longrightarrow> 0 \<le> value r \<and> value r < FIELD_SIZE)
   \<and> (\<forall>a b r. mul a b = Inr r \<longrightarrow> 0 \<le> value r \<and> value r < FIELD_SIZE)
   \<and> (\<forall>a e r. pow a e = Inr r \<longrightarrow> 0 \<le> value r \<and> value r < FIELD_SIZE)"
proof (intro conjI allI impI)
  show "FIELD_SIZE = 21888242871839275222246405745257275088548364400416034343698204186575808495617"
    by (simp add: FIELD_SIZE_def)
next
  fix v x assume "new_FieldElement v = Inr x"
  then have "inField x" by (rule new_FieldElement_inField)
  then show "0 \<le> value x" "value x < FIELD_SIZE" by (simp_all add: inField_def)
next
  fix bs
  have "inField (fromBytes bs)" by (simp add: fromBytes_def reduce_inField)
  then show "0 \<le> value (fromBytes bs)" "value (fromBytes bs) < FIELD_SIZE"
    by (simp_all add: inField_def)
next
  fix s x assume "fromHex s = Inr x"
  then have "inField x" unfolding fromHex_def by (rule new_FieldElement_inField)
  then show "0 \<le> value x" "value x < FIELD_SIZE" by (simp_all add: inField_def)
next
  fix v x assume h: "fromString v = Inr x"
  have "inField x"
  proof (cases v)
    case (VString str)
    with h show ?thesis
      by (auto simp: reduce_inField split: if_splits sum.splits)
  qed (use h in simp_all)
  then show "0 \<le> value x" "value x < FIELD_SIZE" by (simp_all add: inField_def)
next
  fix a b r assume "add a b = Inr r"
  then have "inField r" by (auto simp: add_def addFE_def reduce_inField split: sum.splits)
  then show "0 \<le> value r" "value r < FIELD_SIZE" by (simp_all add: inField_def)
next
  fix a b r assume "sub a b = Inr r"
  then have "inField r" by (auto simp: sub_def subFE_def Let_def reduce_inField split: sum.splits)
  then show "0 \<le> value r" "value r < FIELD_SIZE" by (simp_all add: inField_def)
next
  fix a b r assume "mul a b = Inr r"
  then have "inField r" by (auto simp: mul_def mulFE_def reduce_inField split: sum.splits)
  then show "0 \<le> value r" "value r < FIELD_SIZE" by (simp_all add: inField_def)
next
  fix a e r assume "pow a e = Inr r"
  then have "inField r" by (auto simp: pow_def reduce_inField split: sum.splits)
  then show "0 \<le> value r" "value r < FIELD_SIZE" by (simp_all add: inField_def)
qed

theorem FieldElement_range_witness:
  "new_FieldElement (VBigInt (- 5)) = Inr \<lparr>value = FIELD_SIZE - 5\<rparr>
   \<and> 0 \<le> FIELD_SIZE - 5 \<and> FIELD_SIZE - 5 < FIELD_SIZE
   \<and> value (fromBytes [1, 2]) = 258 \<and> 258 < FIELD_SIZE
   \<and> fromHex ''ff'' = Inr \<lparr>value = 255\<rparr> \<and> 255 < FIELD_SIZE
   \<and> fromString (VString ''10'') = Inr \<lparr>value = 16\<rparr> \<and> 16 < FIELD_SIZE
   \<and> add \<lparr>value = FIELD_SIZE - 1\<rparr> (VBigInt 3) = Inr \<lparr>value = 2\<rparr> \<and> 2 < FIELD_SIZE
   \<and> sub \<lparr>value = 1\<rparr> (VNumber 2) = Inr \<lparr>value = FIELD_SIZE - 1\<rparr>
   \<and> 0 \<le> FIELD_SIZE - 1 \<and> FIELD_SIZE - 1 < FIELD_SIZE
   \<and> mul \<lparr>value = FIELD_SIZE - 1\<rparr> (VString ''2'') = Inr \<lparr>value = FIELD_SIZE - 2\<rparr>
   \<and> 0 \<le> FIELD_SIZE - 2 \<and> FIELD_SIZE - 2 < FIELD_SIZE
   \<and> pow \<lparr>value = 2\<rparr> (VBigInt 10) = Inr \<lparr>value = 1024\<rparr> \<and> 1024 < FIELD_SIZE"
proof -
  note R = FieldElement_range
  have e1: "new_FieldElement (VBigInt (- 5)) = Inr \<lparr>value = FIELD_SIZE - 5\<rparr>" by code_simp
  have e2: "value (fromBytes [1, 2]) = 258" by code_simp
  have e3: "fromHex ''ff'' = Inr \<lparr>value = 255\<rparr>" by code_simp
  have e4: "fromString (VString ''10'') = Inr \<lparr>value = 16\<rparr>" by code_simp
  have e5: "add \<lparr>value = FIELD_SIZE - 1\<rparr> (VBigInt 3) = Inr \<lparr>value = 2\<rparr>" by code_simp
  have e6: "sub \<lparr>value = 1\<rparr> (VNumber 2) = Inr \<lparr>value = FIELD_SIZE - 1\<rparr>" by code_simp
  have e7: "mul \<lparr>value = FIELD_SIZE - 1\<rparr> (VString ''2'') = Inr \<lparr>value = FIELD_SIZE - 2\<rparr>"
    by code_simp
  have e8: "pow \<lparr>value = 2\<rparr> (VBigInt 10) = Inr \<lparr>value = 1024\<rparr>" by code_simp
  from R e1 have r1: "0 \<le> value \<lparr>value = FIELD_SIZE - 5\<rparr> \<and> value \<lparr>value = FIELD_SIZE - 5\<rparr> < FIELD_SIZE"
    by blast
  from R have r2: "value (fromBytes [1, 2]) < FIELD_SIZE" by blast
  from R e3 have r3: "value \<lparr>value = 255\<rparr> < FIELD_SIZE" by blast
  from R e4 have r4: "value \<lparr>value = 16\<rparr> < FIELD_SIZE" by blast
  from R e5 have r5: "value \<lparr>value = 2\<rparr> < FIELD_SIZE" by blast
  from R e6 have r6: "0 \<le> value \<lparr>value = FIELD_SIZE - 1\<rparr> \<and> value \<lparr>value = FIELD_SIZE - 1\<rparr> < FIELD_SIZE"
    by blast
  from R e7 have r7: "0 \<le> value \<lparr>value = FIELD_SIZE - 2\<rparr> \<and> value \<lparr>value = FIELD_SIZE - 2\<rparr> < FIELD_SIZE"
    by blast
  from R e8 have r8: "value \<lparr>value = 1024\<rparr> < FIELD_SIZE" by blast
  show ?thesis
    using e1 e2 e3 e4 e5 e6 e7 e8 r1 r2 r3 r4 r5 r6 r7 r8 by simp
qed

text \<open>
  C6 at the zero element. \<open>inv\<close> is \<open>pow(p - 2)\<close> with no test for zero: on the zero
  element the loop multiplies zeros and the method returns the zero element, where the
  module-level \<open>inverseFieldElement\<close> of the same file throws.
\<close>

theorem inv_zero_returns_zero:
  "new_FieldElement (VBigInt 0) = Inr \<lparr>value = 0\<rparr>
   \<and> inv_fe \<lparr>value = 0\<rparr> = Inr \<lparr>value = 0\<rparr>
   \<and> inverseFieldElement (VBigInt 0) = Inl (Error ''Cannot compute inverse of zero'')"
  by code_simp

section \<open>Properties of the commit hash\<close>

lemma digitChar_0: "digitChar 0 = CHR ''0''"
  by (simp add: digitChar_def)

lemma hexfix_zero: "hexfix m 0 = replicate m CHR ''0''"
  by (induction m) (simp_all add: digitChar_0 replicate_append_same)

lemma length_natToString_le:
  "0 < m \<Longrightarrow> v < 16 ^ m \<Longrightarrow> length (natToString 16 v) \<le> m"
proof (induction m arbitrary: v)
  case 0 then show ?case by simp
next
  case (Suc m)
  show ?case
  proof (cases "v < 16")
    case True then show ?thesis by (subst natToString.simps) simp
  next
    case False
    then have "0 < m" using Suc.prems by (cases m) auto
    moreover have "v div 16 < 16 ^ m" using Suc.prems by (simp add: less_mult_imp_div_less mult.commute)
    ultimately have "length (natToString 16 (v div 16)) \<le> m" by (rule Suc.IH)
    with False show ?thesis by (subst natToString.simps) simp
  qed
qed

lemma padStart_natToString:
  "0 < m \<Longrightarrow> v < 16 ^ m \<Longrightarrow> padStart m CHR ''0'' (natToString 16 v) = hexfix m v"
proof (induction m arbitrary: v)
  case 0 then show ?case by simp
next
  case (Suc m)
  show ?case
  proof (cases "v < 16")
    case True
    then show ?thesis
      by (subst natToString.simps) (simp add: padStart_def hexfix_zero)
  next
    case False
    then have m: "0 < m" using Suc.prems by (cases m) auto
    have d: "v div 16 < 16 ^ m" using Suc.prems by (simp add: less_mult_imp_div_less mult.commute)
    have IH: "padStart m CHR ''0'' (natToString 16 (v div 16)) = hexfix m (v div 16)"
      using m d by (rule Suc.IH)
    have "natToString 16 v = natToString 16 (v div 16) @ [digitChar (v mod 16)]"
      using False by (subst natToString.simps) simp
    then show ?thesis using IH by (simp add: padStart_def)
  qed
qed

lemma digitIn_16_cases:
  assumes "digitIn 16 c = Some d"
  shows "d < 16 \<and> \<not> isWhiteSpace c \<and> c \<noteq> CHR ''-'' \<and> c \<noteq> CHR ''+'' \<and> c \<noteq> CHR ''x'' \<and> c \<noteq> CHR ''X''"
  using assms
  by (auto simp: digitIn_def digitVal_def isWhiteSpace_def Let_def split: if_splits option.splits)

lemma parseInt_pair:
  assumes "digitIn 16 c1 = Some d1" "digitIn 16 c2 = Some d2"
  shows "parseInt 16 [c1, c2] = Some (int (16 * d1 + d2))"
  using digitIn_16_cases[OF assms(1)] digitIn_16_cases[OF assms(2)] assms
  by (simp add: parseInt_def trimStart_def Let_def)

lemma toUint8_pair:
  assumes "digitIn 16 c1 = Some d1" "digitIn 16 c2 = Some d2"
  shows "toUint8 (parseInt 16 [c1, c2]) = 16 * d1 + d2"
proof -
  have "d1 < 16" "d2 < 16" using assms digitIn_16_cases by blast+
  then have "(int (16 * d1 + d2)) mod 256 = int (16 * d1 + d2)" by simp
  then show ?thesis using parseInt_pair[OF assms] by (simp add: toUint8_def)
qed

lemma digit_range: "d < 16 \<Longrightarrow> d \<in> {0,1,2,3,4,5,6,7,8,9,10,11,12,13,14,15::nat}"
  by (simp, arith)

lemma digitIn_digitChar: "d < 16 \<Longrightarrow> digitIn 16 (digitChar d) = Some d"
  by (drule digit_range) (auto simp add: digitChar_def digitIn_def digitVal_def)

lemma hexPairs_append:
  "even (length xs) \<Longrightarrow> hexPairs (xs @ ys) = hexPairs xs @ hexPairs ys"
  by (induction xs rule: hexPairs.induct) auto

lemma length_hexfix: "length (hexfix m v) = m"
  by (induction m arbitrary: v) auto

lemma hexPairs_hexfix: "hexPairs (hexfix (2 * k) v) = be_rec k v"
proof (induction k arbitrary: v)
  case 0 then show ?case by simp
next
  case (Suc k)
  have e: "hexfix (2 * Suc k) v =
           hexfix (2 * k) (v div 256) @ [digitChar (v div 16 mod 16), digitChar (v mod 16)]"
    using div_mult2_eq[of v 16 16] by simp
  have b: "toUint8 (parseInt 16 [digitChar (v div 16 mod 16), digitChar (v mod 16)]) = v mod 256"
  proof -
    have "toUint8 (parseInt 16 [digitChar (v div 16 mod 16), digitChar (v mod 16)])
          = 16 * (v div 16 mod 16) + v mod 16"
      by (rule toUint8_pair) (simp_all add: digitIn_digitChar)
    also have "\<dots> = v mod 256"
      using mod_mult2_eq[of v 16 16] by simp
    finally show ?thesis .
  qed
  show ?case
    unfolding e using Suc.IH[of "v div 256"] b
    by (simp add: hexPairs_append length_hexfix)
qed

lemma be_rec_bigEndian: "be_rec k v = bigEndian k v"
proof (induction k arbitrary: v)
  case 0 then show ?case by (simp add: bigEndian_def)
next
  case (Suc k)
  have "map (\<lambda>i. v div 256 ^ (Suc k - 1 - i) mod 256) [0..<k]
        = map (\<lambda>i. v div 256 div 256 ^ (k - 1 - i) mod 256) [0..<k]"
  proof (rule map_cong[OF refl])
    fix i assume "i \<in> set [0..<k]"
    then have "Suc k - 1 - i = Suc (k - 1 - i)" by auto
    then show "v div 256 ^ (Suc k - 1 - i) mod 256 = v div 256 div 256 ^ (k - 1 - i) mod 256"
      by (simp add: div_mult2_eq)
  qed
  then show ?case using Suc.IH[of "v div 256"]
    by (simp add: bigEndian_def)
qed

lemma hexPairs_padStart:
  assumes "0 < k" "v < 256 ^ k"
  shows "hexPairs (padStart (2 * k) CHR ''0'' (natToString 16 v)) = bigEndian k v"
proof -
  have "(256::nat) ^ k = 16 ^ (2 * k)" by (simp add: power_mult)
  then have "v < 16 ^ (2 * k)" using assms by simp
  then have "padStart (2 * k) CHR ''0'' (natToString 16 v) = hexfix (2 * k) v"
    using assms by (intro padStart_natToString) simp_all
  then show ?thesis by (simp add: hexPairs_hexfix be_rec_bigEndian)
qed

lemma hexPairs_denotes:
  "hexDenotes hs a \<Longrightarrow> \<forall>b\<in>set a. b < 256 \<Longrightarrow> hexPairs hs = a"
proof (induction a arbitrary: hs)
  case Nil then show ?case by (simp add: hexDenotes_def nibbles_def)
next
  case (Cons b a)
  from Cons.prems(1) obtain c1 c2 rest where hs: "hs = c1 # c2 # rest"
    and c1: "digitIn 16 c1 = Some (b div 16)" and c2: "digitIn 16 c2 = Some (b mod 16)"
    and rest: "hexDenotes rest a"
    by (auto simp: hexDenotes_def nibbles_def map_eq_Cons_conv)
  have "toUint8 (parseInt 16 [c1, c2]) = 16 * (b div 16) + b mod 16"
    by (rule toUint8_pair[OF c1 c2])
  then have "toUint8 (parseInt 16 [c1, c2]) = b" by simp
  moreover have "hexPairs rest = a" using Cons.IH[OF rest] Cons.prems(2) by simp
  ultimately show ?case by (simp add: hs)
qed

lemma length_nibbles: "length (nibbles a) = 2 * length a"
  by (induction a) (simp_all add: nibbles_def)

lemma hexDenotes_length: "hexDenotes hs a \<Longrightarrow> length hs = 2 * length a"
proof -
  assume "hexDenotes hs a"
  then have "length (map (digitIn 16) hs) = length (map Some (nibbles a))"
    by (simp add: hexDenotes_def)
  then show ?thesis by (simp add: length_nibbles)
qed

lemma be_rec_numeral:
  "be_rec (numeral k) v = be_rec (pred_numeral k) (v div 256) @ [v mod 256]"
proof -
  have "be_rec (Suc (pred_numeral k)) v = be_rec (pred_numeral k) (v div 256) @ [v mod 256]"
    by (rule be_rec.simps)
  then show ?thesis by (simp only: numeral_eq_Suc[of k, symmetric])
qed

text \<open>
  C1. For a commitment that is a field element, a nonce that fits a \<open>uint256\<close> and a
  20-byte address written as 40 hexadecimal digits (with or without the prefix \<open>0x\<close>),
  \<open>generateCommitHash\<close> returns \<open>0x\<close> followed by the keccak256 digest of exactly the
  bytes of \<open>abi.encodePacked(commitment, nonce, address)\<close>: 32 big-endian bytes, 32
  big-endian bytes, 20 bytes.
\<close>

theorem generateCommitHash_encodePacked:
  assumes c: "0 \<le> value c" "value c < FIELD_SIZE"
    and n: "0 \<le> n" "n < 2 ^ 256"
    and a: "length a = 20" "\<forall>b\<in>set a. b < 256"
    and s: "hexDenotes hs a" "address = ''0x'' @ hs \<or> address = hs"
  shows "generateCommitHash keccak256 (VFieldElement c) (VBigInt n) address =
         Inr (''0x'' @ keccak256 (encodePacked (nat (value c)) (nat n) a))"
proof -
  have len: "length hs = 40" using hexDenotes_length[OF s(1)] a(1) by simp
  have nox: "\<not> startsWith hs ''0x''"
  proof
    assume "startsWith hs ''0x''"
    then have x: "hs ! 1 = CHR ''x''"
      using len by (cases hs; cases "tl hs") (auto simp: startsWith_def)
    have "length (nibbles a) = 40"
      using a(1) by (simp add: length_nibbles)
    moreover have "map (digitIn 16) hs ! 1 = map Some (nibbles a) ! 1"
      using s(1) by (simp add: hexDenotes_def)
    ultimately have "digitIn 16 (hs ! 1) = Some (nibbles a ! 1)"
      using len by simp
    then show False using x by (simp add: digitIn_def digitVal_def)
  qed
  have addr: "padStart 40 CHR ''0'' (if startsWith address ''0x'' then drop 2 address else address) = hs"
    using s(2) nox len by (auto simp: padStart_def startsWith_def)
  have p: "FIELD_SIZE < 2 ^ 256" by (simp add: FIELD_SIZE_def)
  have "value c < 2 ^ 256" using c(2) p by (rule less_trans)
  then have cv: "nat (value c) < 256 ^ 32" using c(1) by (simp add: nat_less_iff)
  have nv: "nat n < 256 ^ 32" using n by (simp add: nat_less_iff)
  have ch: "hexPairs (padStart 64 CHR ''0'' (natToString 16 (nat (value c)))) = bigEndian 32 (nat (value c))"
    using hexPairs_padStart[of 32 "nat (value c)"] cv by simp
  have nh: "hexPairs (padStart 64 CHR ''0'' (natToString 16 (nat n))) = bigEndian 32 (nat n)"
    using hexPairs_padStart[of 32 "nat n"] nv by simp
  have l1: "length (padStart 64 CHR ''0'' (natToString 16 (nat (value c)))) = 64"
    using length_natToString_le[of 64 "nat (value c)"] cv by (simp add: padStart_def)
  have l2: "length (padStart 64 CHR ''0'' (natToString 16 (nat n))) = 64"
    using length_natToString_le[of 64 "nat n"] nv by (simp add: padStart_def)
  have hp: "hexPairs hs = a" using hexPairs_denotes[OF s(1) a(2)] .
  have pk: "hexPairs (padStart 64 CHR ''0'' (natToString 16 (nat (value c)))
                     @ padStart 64 CHR ''0'' (natToString 16 (nat n)) @ hs)
            = bigEndian 32 (nat (value c)) @ bigEndian 32 (nat n) @ a"
    by (simp add: hexPairs_append l1 l2 ch nh hp del: hexPairs.simps)
  have th: "drop 2 (toHex c) = padStart 64 CHR ''0'' (natToString 16 (nat (value c)))"
    using c(1) by (simp add: toHex_def bigintToString_def)
  have nn: "bigintToString 16 n = natToString 16 (nat n)"
    using n(1) by (simp add: bigintToString_def)
  show ?thesis
    unfolding generateCommitHash_def Let_def addr encodePacked_def
    by (simp only: js_value.case sum.case th nn pk)
qed


theorem generateCommitHash_encodePacked_witness:
  "hexDenotes ''00000000000000000000000000000000000000Ff''
              [0, 0, 0, 0, 0, 0, 0, 0, 0, 0, 0, 0, 0, 0, 0, 0, 0, 0, 0, 255]
   \<and> (\<forall>keccak256.
        generateCommitHash keccak256 (VFieldElement \<lparr>value = 1\<rparr>) (VBigInt 258)
          ''0x00000000000000000000000000000000000000Ff''
        = Inr (''0x'' @ keccak256
            ([0, 0, 0, 0, 0, 0, 0, 0, 0, 0, 0, 0, 0, 0, 0, 0,
              0, 0, 0, 0, 0, 0, 0, 0, 0, 0, 0, 0, 0, 0, 0, 1]
             @ [0, 0, 0, 0, 0, 0, 0, 0, 0, 0, 0, 0, 0, 0, 0, 0,
                0, 0, 0, 0, 0, 0, 0, 0, 0, 0, 0, 0, 0, 0, 1, 2]
             @ [0, 0, 0, 0, 0, 0, 0, 0, 0, 0, 0, 0, 0, 0, 0, 0, 0, 0, 0, 255])))"
proof -
  let ?a = "[0, 0, 0, 0, 0, 0, 0, 0, 0, 0, 0, 0, 0, 0, 0, 0, 0, 0, 0, 255] :: bytes"
  let ?hs = "''00000000000000000000000000000000000000Ff''"
  have d: "hexDenotes ?hs ?a"
    by (simp add: hexDenotes_def nibbles_def digitIn_def digitVal_def)
  have c: "(0::int) \<le> value \<lparr>value = 1\<rparr>" "value \<lparr>value = 1\<rparr> < FIELD_SIZE"
    by (simp_all add: FIELD_SIZE_def)
  have n: "(0::int) \<le> 258" "(258::int) < 2 ^ 256" by simp_all
  have a: "length ?a = 20" "\<forall>b\<in>set ?a. b < 256" by simp_all
  have b1: "bigEndian 32 (nat (value \<lparr>value = 1\<rparr>)) =
            [0, 0, 0, 0, 0, 0, 0, 0, 0, 0, 0, 0, 0, 0, 0, 0,
             0, 0, 0, 0, 0, 0, 0, 0, 0, 0, 0, 0, 0, 0, 0, 1]"
    unfolding be_rec_bigEndian[symmetric] by (simp add: be_rec_numeral)
  have b2: "bigEndian 32 (nat 258) =
            [0, 0, 0, 0, 0, 0, 0, 0, 0, 0, 0, 0, 0, 0, 0, 0,
             0, 0, 0, 0, 0, 0, 0, 0, 0, 0, 0, 0, 0, 0, 1, 2]"
    unfolding be_rec_bigEndian[symmetric] by (simp add: be_rec_numeral)
  have "generateCommitHash keccak256 (VFieldElement \<lparr>value = 1\<rparr>) (VBigInt 258) (''0x'' @ ?hs)
        = Inr (''0x'' @ keccak256 (encodePacked (nat (value \<lparr>value = 1\<rparr>)) (nat 258) ?a))"
    for keccak256
    by (rule generateCommitHash_encodePacked [OF c n a d]) simp
  then show ?thesis
    using d unfolding encodePacked_def b1 b2 by simp
qed

section \<open>Properties of the nullifier query\<close>

text \<open>
  C10. When the ledger's \<open>usedNullifiers\<close> query throws, \<open>isNullifierUsed\<close> answers
  \<open>false\<close>; it never throws itself, and its answer after a failed query is the answer it
  gives for a nullifier the ledger reports unused.
\<close>

theorem isNullifierUsed_swallows_error:
  "(\<forall>usedNullifiers nullifier e.
       usedNullifiers nullifier = Inl e \<longrightarrow> isNullifierUsed usedNullifiers nullifier = Inr False)
   \<and> (\<forall>usedNullifiers nullifier. \<exists>b. isNullifierUsed usedNullifiers nullifier = Inr b)
   \<and> (\<forall>failing unused nullifier e.
       failing nullifier = Inl e \<and> unused nullifier = Inr False \<longrightarrow>
       isNullifierUsed failing nullifier = isNullifierUsed unused nullifier)"
  by (auto simp: isNullifierUsed_def split: sum.splits)

theorem isNullifierUsed_swallows_error_witness:
  "isNullifierUsed (\<lambda>n. Inl (Error ''network error'')) ''0x01'' = Inr False
   \<and> isNullifierUsed (\<lambda>n. Inl (Error ''network error'')) ''0x01''
       = isNullifierUsed (\<lambda>n. Inr False) ''0x01''"
proof -
  let ?failing = "\<lambda>n::string. (Inl (Error ''network error'') :: js_error + bool)"
  let ?unused = "\<lambda>n::string. (Inr False :: js_error + bool)"
  have h: "?failing ''0x01'' = Inl (Error ''network error'')" by simp
  have u: "?unused ''0x01'' = Inr False" by simp
  have a: "isNullifierUsed ?failing ''0x01'' = Inr False"
    using isNullifierUsed_swallows_error [THEN conjunct1, rule_format, of ?failing "''0x01''", OF h] .
  have b: "isNullifierUsed ?failing ''0x01'' = isNullifierUsed ?unused ''0x01''"
    using isNullifierUsed_swallows_error [THEN conjunct2, THEN conjunct2, rule_format,
        of ?failing "''0x01''" _ ?unused] h u by blast
  show ?thesis using a b by blast
qed

section \<open>Properties of the keeper selection\<close>

lemma getActiveKeeperPublicKey_throws:
  "getActiveKeeperPublicKey L =
     (case getContract L of
        Inl e \<Rightarrow> Inl e
      | Inr contract \<Rightarrow> Inl (Error ''No active keepers available''))"
  by (simp add: getActiveKeeperPublicKey_def activeKeeperList_length_def split: sum.splits)

text \<open>
  The scores are computed in doubles: \<open>1 / 49\<close> is rounded, and 49 times the rounded
  quotient is the double below 1.
\<close>

lemma soleKeeper_score: "keeperScore soleKeeper = 100"
  by code_simp

lemma keeperScore_rounds:
  "keeperScore keeperA = 9007199254740991 / 9007199254740992" "keeperScore keeperB = 1"
  by code_simp+

lemma soleLedger_loop:
  "selectLoop soleLedger [''0xA1''] (None, 0)
   = (Some \<lparr> bk_address = ''0xA1'', bk_publicKey = ''0x04aa'', bk_score = 100 \<rparr>, 100)"
  by (simp add: soleLedger_def soleKeeper_score) (simp add: soleKeeper_def)

text \<open>
  Claim C8 (the selection skips inactive and slashed keepers and returns the eligible
  keeper of highest score, first seen on a tie). On a ledger whose list holds one keeper,
  active, not slashed, of score 100, which the loop would select, \<open>getActiveKeeperPublicKey\<close>
  throws "No active keepers available": the count it tests is the \<open>length\<close> of the
  contract method and not the length of the ledger's list.
\<close>

theorem keeper_never_selected:
  "activeKeeperList soleLedger 0 = Inr ''0xA1''
   \<and> keepers soleLedger ''0xA1'' = Inr soleKeeper
   \<and> isActive soleKeeper \<and> \<not> isSlashed soleKeeper \<and> keeperScore soleKeeper = 100
   \<and> selectLoop soleLedger [''0xA1''] (None, 0)
       = (Some \<lparr> bk_address = ''0xA1'', bk_publicKey = ''0x04aa'', bk_score = 100 \<rparr>, 100)
   \<and> getActiveKeeperPublicKey soleLedger = Inl (Error ''No active keepers available'')"
  using soleKeeper_score soleLedger_loop
  by (simp add: getActiveKeeperPublicKey_throws) (simp add: soleLedger_def soleKeeper_def)

section \<open>Properties of the retry loop\<close>

lemma withRetry_first_success:
  "fn 0 s = (Inr r, s') \<Longrightarrow> withRetry fn shouldRetry s = (Inr r, s')"
  by (simp add: withRetry_def withRetry_loop.simps)


lemma withRetry_loop_stuck_which:
  assumes "\<And>i. fn i s = (Inl (E i), s)" and "i \<le> maxRetries"
  shows "\<exists>j. i \<le> j \<and> j \<le> maxRetries \<and>
             withRetry_loop fn shouldRetry i lastError s = (Inl (E j), s)"
  using assms(2)
proof (induction "maxRetries - i" arbitrary: i lastError)
  case 0
  then have "i = maxRetries" by simp
  then show ?case using assms(1)[of i] by (subst withRetry_loop.simps) auto
next
  case (Suc n)
  show ?case
  proof (cases "\<not> shouldRetry (E i)")
    case True
    then show ?thesis using Suc.prems assms(1)[of i] by (subst withRetry_loop.simps) auto
  next
    case False
    have "n = maxRetries - (i + 1)" "i + 1 \<le> maxRetries" using Suc.hyps(2) by simp_all
    from Suc.hyps(1)[OF this] obtain j where
      j: "i + 1 \<le> j" "j \<le> maxRetries"
         "withRetry_loop fn shouldRetry (i + 1) (Some (E i)) s = (Inl (E j), s)"
      by blast
    have "i \<noteq> maxRetries" using Suc.hyps(2) by simp
    then have "withRetry_loop fn shouldRetry i lastError s = (Inl (E j), s)"
      using False Suc.prems assms(1)[of i] j(3) by (subst withRetry_loop.simps) auto
    then show ?thesis using j by (intro exI[of _ j]) auto
  qed
qed

lemma withRetry_loop_indexed:
  assumes step: "\<And>j s r s'. i \<le> j \<Longrightarrow> j \<le> maxRetries \<Longrightarrow> I j s \<Longrightarrow> fn j s = (r, s') \<Longrightarrow> I (Suc j) s'"
    and init: "I i s"
    and run: "withRetry_loop fn shouldRetry i lastError s = (r, s')"
  shows "\<exists>j\<ge>i. I j s'"
  using init run step
proof (induction "Suc maxRetries - i" arbitrary: i lastError s)
  case 0
  then have "\<not> i \<le> maxRetries" by simp
  then have "s' = s"
    using "0.prems"(2) by (subst (asm) withRetry_loop.simps) (auto split: option.splits)
  then show ?case using "0.prems"(1) by auto
next
  case (Suc n)
  then have le: "i \<le> maxRetries" by simp
  obtain x t where f: "fn i s = (x, t)" by (cases "fn i s")
  have It: "I (Suc i) t" using Suc.prems(3)[OF order_refl le Suc.prems(1) f] .
  show ?case
  proof (cases x)
    case (Inr v)
    then have "s' = t"
      using Suc.prems(2) le f by (subst (asm) withRetry_loop.simps) simp
    then show ?thesis using It by (auto intro: exI[of _ "Suc i"])
  next
    case (Inl e)
    show ?thesis
    proof (cases "i = maxRetries \<or> \<not> shouldRetry e")
      case True
      then have "s' = t"
        using Suc.prems(2) le f Inl by (subst (asm) withRetry_loop.simps) auto
      then show ?thesis using It by (auto intro: exI[of _ "Suc i"])
    next
      case False
      then have run': "withRetry_loop fn shouldRetry (i + 1) (Some e) t = (r, s')"
        using Suc.prems(2) le f Inl by (subst (asm) withRetry_loop.simps) auto
      have n: "n = Suc maxRetries - (i + 1)" using Suc.hyps(2) by simp
      have "\<exists>j\<ge>i + 1. I j s'"
      proof (rule Suc.hyps(1)[OF n _ run'])
        show "I (i + 1) t" using It by simp
      next
        fix j s r s'
        assume "i + 1 \<le> j" "j \<le> maxRetries" "I j s" "fn j s = (r, s')"
        then show "I (Suc j) s'" using Suc.prems(3)[of j s r s'] by simp
      qed
      then show ?thesis by (meson add_leD1)
    qed
  qed
qed

lemma withRetry_loop_final:
  assumes step: "\<And>j s r s'. I s \<Longrightarrow> fn j s = (r, s') \<Longrightarrow> F s' \<and> (isl r \<longrightarrow> I s')"
    and init: "I s" and le: "i \<le> maxRetries"
    and run: "withRetry_loop fn shouldRetry i lastError s = (r, s')"
  shows "F s'"
  using init le run
proof (induction "maxRetries - i" arbitrary: i lastError s)
  case 0
  then have i: "i = maxRetries" by simp
  obtain x t where f: "fn i s = (x, t)" by (cases "fn i s")
  then have "s' = t"
    using "0.prems"(3) i by (subst (asm) withRetry_loop.simps) (auto split: sum.splits)
  then show ?case using step[OF "0.prems"(1) f] by simp
next
  case (Suc n)
  obtain x t where f: "fn i s = (x, t)" by (cases "fn i s")
  note st = step[OF Suc.prems(1) f]
  show ?case
  proof (cases "\<exists>e. x = Inl e \<and> i \<noteq> maxRetries \<and> shouldRetry e")
    case False
    then have "s' = t"
      using Suc.prems(2,3) f by (subst (asm) withRetry_loop.simps) (auto split: sum.splits)
    then show ?thesis using st by simp
  next
    case True
    then obtain e where e: "x = Inl e" "i \<noteq> maxRetries" "shouldRetry e" by blast
    then have run': "withRetry_loop fn shouldRetry (i + 1) (Some e) t = (r, s')"
      using Suc.prems(2,3) f by (subst (asm) withRetry_loop.simps) auto
    have "n = maxRetries - (i + 1)" "i + 1 \<le> maxRetries" using Suc.hyps(2) by simp_all
    moreover have "I t" using st e by simp
    ultimately show ?thesis using Suc.hyps(1) run' by blast
  qed
qed








section \<open>Properties of the account reveal\<close>

text \<open>What one attempt of the reveal can do to the state.\<close>

lemma revealAttempt_effect:
  assumes "pendingCommit this = Some pc"
    and "revealAttempt w userAddress (this, calls) = (r, (this', calls'))"
  shows "(calls' = calls \<or>
          calls' = calls @ [RevealTradingAccount (toHex (commitment pc)) (nonce pc) mockAccountProof])
       \<and> (isl r \<longrightarrow> pendingCommit this' = Some pc)"
  using assms
  by (auto simp: revealAttempt_def Let_def split: sum.splits if_splits)








lemma example_hex:
  "toHex (commitment examplePending)
   = ''0x000000000000000000000000000000000000000000000000000000000000004d''"
  by (simp add: examplePending_def toHex_def bigintToString_def natToString.simps digitChar_def
      padStart_def replicate_numeral)









section \<open>Properties of retried operations\<close>

lemma revealAccount_calls:
  assumes pend: "pendingCommit this = Some pc"
    and run: "revealAccount world userAddress (this, calls) = (r, (this', calls'))"
  shows "\<exists>k. calls' = calls @ replicate k
           (RevealTradingAccount (toHex (commitment pc)) (nonce pc) mockAccountProof)"
proof -
  let ?X = "RevealTradingAccount (toHex (commitment pc)) (nonce pc) mockAccountProof"
  let ?F = "\<lambda>s :: PrivateAccountManager \<times> ledger_call list. \<exists>k. snd s = calls @ replicate k ?X"
  let ?I = "\<lambda>s. pendingCommit (fst s) = Some pc \<and> ?F s"
  have step: "?F s' \<and> (isl r \<longrightarrow> ?I s')"
    if "?I s" "revealAttempt (world j) userAddress s = (r, s')" for j s r s'
  proof -
    obtain t c where s: "s = (t, c)" by (cases s)
    obtain t' c' where s': "s' = (t', c')" by (cases s')
    from that(1) s obtain k where k: "pendingCommit t = Some pc" "c = calls @ replicate k ?X"
      by auto
    from revealAttempt_effect[OF k(1) that(2)[unfolded s s']]
    have eff: "c' = c \<or> c' = c @ [?X]" "isl r \<longrightarrow> pendingCommit t' = Some pc" by simp_all
    have "\<exists>k'. c' = calls @ replicate k' ?X"
    proof -
      from eff(1) show ?thesis
      proof
        assume "c' = c" then show ?thesis using k(2) by blast
      next
        assume "c' = c @ [?X]"
        then have "c' = calls @ replicate (Suc k) ?X"
          using k(2) by (simp add: replicate_append_same)
        then show ?thesis by blast
      qed
    qed
    then show ?thesis using eff(2) s' by simp
  qed
  have init: "?I (this, calls)" using pend by (simp add: exI[of _ 0])
  have run': "withRetry_loop (\<lambda>i. revealAttempt (world i) userAddress) isRetryableError 0 None
               (this, calls) = (r, (this', calls'))"
    using run pend by (simp add: revealAccount_def withRetry_def)
  have "?F (this', calls')"
    by (rule withRetry_loop_final[where I = ?I and F = ?F, OF step init _ run']) simp_all
  then show ?thesis by simp
qed

lemma submitAttempt_query:
  assumes "getSignerContract w = Inr ()"
    and "orderValues privateKey orderData (getRandomValues w) = Inr v"
  shows "\<exists>e. submitAttempt w privateKey (Inr orderData) calls
            = (Inl e, calls @ [UsedNullifiers (nullifier v)])"
  using assms
  by (auto simp: submitAttempt_def orderValues_def Let_def split: sum.splits)

lemma orderValues_nonce:
  "orderValues privateKey orderData random = Inr v \<Longrightarrow>
   generateOrderNonce random = Inr (orderNonce v)"
  by (auto simp: orderValues_def split: sum.splits)

lemma submitPrivateOrder_calls:
  assumes ok: "\<forall>i\<le>maxRetries. getSignerContract (world i) = Inr ()
                 \<and> orderValues privateKey orderData (getRandomValues (world i)) = Inr (v i)"
    and run: "submitPrivateOrder world (Some account) privateKey (Inr ()) (Inr orderData) calls
              = (r, calls')"
  shows "\<exists>k\<ge>1. calls' = calls @ map (\<lambda>i. UsedNullifiers (nullifier (v i))) [0..<k]"
proof -
  let ?g = "\<lambda>i. UsedNullifiers (nullifier (v i))"
  let ?fn = "\<lambda>i. submitAttempt (world i) privateKey (Inr orderData)"
  let ?I = "\<lambda>j c. c = calls @ map ?g [0..<j]"
  have run': "withRetry_loop ?fn shouldRetryOrder 0 None calls = (r, calls')"
    using run by (simp add: submitPrivateOrder_def withRetry_def)
  have step: "?I (Suc j) s'" if "j \<le> maxRetries" "?I j s" "?fn j s = (x, s')" for j s x s'
  proof -
    from submitAttempt_query[of "world j" privateKey orderData "v j" s] ok that(1)
    obtain e where "?fn j s = (Inl e, s @ [?g j])" by blast
    with that show ?thesis by simp
  qed
  from submitAttempt_query[of "world 0" privateKey orderData "v 0" calls] ok
  obtain e where e: "?fn 0 calls = (Inl e, calls @ [?g 0])" by blast
  have "\<exists>j\<ge>Suc 0. ?I j calls'"
  proof (cases "0 = maxRetries \<or> \<not> shouldRetryOrder e")
    case True
    then have "calls' = calls @ [?g 0]"
      using run' e by (subst (asm) withRetry_loop.simps) (auto simp: maxRetries_def)
    then show ?thesis by (intro exI[of _ "Suc 0"]) simp
  next
    case False
    then have "withRetry_loop ?fn shouldRetryOrder (0 + 1) (Some e) (calls @ [?g 0]) = (r, calls')"
      using run' e by (subst (asm) withRetry_loop.simps) (auto simp: maxRetries_def)
    then have "\<exists>j\<ge>0 + 1. ?I j calls'"
      by (intro withRetry_loop_indexed[where I = ?I and i = "0 + 1"]) (use step in auto)
    then show ?thesis by simp
  qed
  then obtain j where "j \<ge> 1" "calls' = calls @ map ?g [0..<j]" by auto
  then show ?thesis by blast
qed

text \<open>
  C3, as the code has it. Every reveal transaction that \<open>revealAccount\<close> sends, at the
  first attempt and at each retry, carries the commitment and the nonce of the pending
  commit. \<open>submitPrivateOrder\<close> draws the order nonce inside the retried body: the
  nullifier that attempt \<open>i\<close> asks the ledger about is computed from the bytes drawn at
  attempt \<open>i\<close>, and so are its nonce and commitment.
\<close>

theorem retry_values:
  "(pendingCommit this = Some pc
      \<and> revealAccount world userAddress (this, calls) = (r, (this', calls')) \<longrightarrow>
    (\<exists>k. calls' = calls @ replicate k
            (RevealTradingAccount (toHex (commitment pc)) (nonce pc) mockAccountProof)))
   \<and> ((\<forall>i\<le>maxRetries. getSignerContract (world i) = Inr ()
          \<and> orderValues privateKey orderData (getRandomValues (world i)) = Inr (v i))
      \<and> submitPrivateOrder world (Some account) privateKey (Inr ()) (Inr orderData) calls
          = (r2, calls2) \<longrightarrow>
    (\<exists>k\<ge>1. calls2 = calls @ map (\<lambda>i. UsedNullifiers (nullifier (v i))) [0..<k])
    \<and> (\<forall>i\<le>maxRetries. generateOrderNonce (getRandomValues (world i)) = Inr (orderNonce (v i))))"
proof (intro conjI impI allI)
  assume "pendingCommit this = Some pc
      \<and> revealAccount world userAddress (this, calls) = (r, (this', calls'))"
  then show "\<exists>k. calls' = calls @ replicate k
            (RevealTradingAccount (toHex (commitment pc)) (nonce pc) mockAccountProof)"
    using revealAccount_calls[of this pc world userAddress calls r this' calls'] by blast
next
  assume h: "(\<forall>i\<le>maxRetries. getSignerContract (world i) = Inr ()
          \<and> orderValues privateKey orderData (getRandomValues (world i)) = Inr (v i))
      \<and> submitPrivateOrder world (Some account) privateKey (Inr ()) (Inr orderData) calls
          = (r2, calls2)"
  then show "\<exists>k\<ge>1. calls2 = calls @ map (\<lambda>i. UsedNullifiers (nullifier (v i))) [0..<k]"
    using submitPrivateOrder_calls[of world privateKey orderData v account calls r2 calls2]
    by blast
  fix i assume "i \<le> maxRetries"
  with h have "orderValues privateKey orderData (getRandomValues (world i)) = Inr (v i)"
    by blast
  then show "generateOrderNonce (getRandomValues (world i)) = Inr (orderNonce (v i))"
    by (rule orderValues_nonce)
qed

lemma example_serialized:
  "serializeOrderData exampleOrder
   = ''0x0000000000000000000000000000000000000001|1000000000|0|0|1|10|0|0''"
  by (simp add: serializeOrderData_def exampleOrder_def orString_def orNumber_def
      bigintToString_def natToString.simps digitChar_def)

lemma example_hash:
  "hashOrderData (serializeOrderData exampleOrder)
   = \<lparr> value = 9074240907964926257118201147682932489327558329938006028187344496231156313318 \<rparr>"
  unfolding example_serialized
  by (simp add: hashOrderData_def utf8_def addFE_def mulFE_def reduce_def Let_def
      signed_modulo_int_def FIELD_SIZE_def)


lemma nonce_of_zeros:
  "generateOrderNonce (replicate 31 0 @ [b])
   = BigInt_string (''0x00000000000000000000000000000000000000000000000000000000000000'' @ byteHex b)"
proof -
  have z: "byteHex 0 = ''00''"
    by (simp add: byteHex_def padStart_def natToString.simps digitChar_def)
  have u: "(replicate 31 0 @ [b]) [0 := ((replicate 31 0 @ [b]) ! 0) AND 15] = replicate 31 0 @ [b]"
    by (simp add: replicate_numeral)
  show ?thesis
    unfolding generateOrderNonce_def Let_def u
    by (simp add: replicate_numeral z)
qed

lemma BigInt_small:
  "BigInt_string ''0x0000000000000000000000000000000000000000000000000000000000000001'' = Inr 1"
  "BigInt_string ''0x0000000000000000000000000000000000000000000000000000000000000002'' = Inr 2"
  "BigInt_string ''0x0000000000000000000000000000000000000000000000000000000000000003'' = Inr 3"
  "BigInt_string ''0x0000000000000000000000000000000000000000000000000000000000000004'' = Inr 4"
  by (simp_all add: BigInt_string_def StringToBigInt_def trim_def trimStart_def trimEnd_def
      isWhiteSpace_def numeral_of_def digitIn_def digitVal_def)

lemma byteHex_small:
  "byteHex (Suc 0) = ''01''" "byteHex (Suc (Suc 0)) = ''02''" "byteHex 2 = ''02''"
  "byteHex 3 = ''03''" "byteHex 4 = ''04''"
  by (simp_all add: byteHex_def padStart_def natToString.simps digitChar_def)

lemma example_nonces:
  "generateOrderNonce (getRandomValues (orderWorld 0)) = Inr 1"
  "generateOrderNonce (getRandomValues (orderWorld 1)) = Inr 2"
  "generateOrderNonce (getRandomValues (orderWorld 2)) = Inr 3"
  "generateOrderNonce (getRandomValues (orderWorld 3)) = Inr 4"
  by (simp_all add: orderWorld_def worldAt_def nonce_of_zeros byteHex_small BigInt_small)


lemma example_commitments:
  "generateOrderCommitment exampleOrder (VBigInt 1) = Inr \<lparr> value = 9074240907964926257118201147682932489327558329938006028187344496231156313319 \<rparr>"
  "generateOrderCommitment exampleOrder (VBigInt 2) = Inr \<lparr> value = 9074240907964926257118201147682932489327558329938006028187344496231156313320 \<rparr>"
  "generateOrderCommitment exampleOrder (VBigInt 3) = Inr \<lparr> value = 9074240907964926257118201147682932489327558329938006028187344496231156313321 \<rparr>"
  "generateOrderCommitment exampleOrder (VBigInt 4) = Inr \<lparr> value = 9074240907964926257118201147682932489327558329938006028187344496231156313322 \<rparr>"
  by (simp_all add: generateOrderCommitment_def example_hash addFE_def reduce_def Let_def
      signed_modulo_int_def FIELD_SIZE_def)

lemma example_nullifiers:
  "generateOrderNullifier exampleKey \<lparr> value = 9074240907964926257118201147682932489327558329938006028187344496231156313319 \<rparr> (VBigInt 1)
   = Inr ''0x281fad3bc5da0ae07fbf8a03a4454b5ec06372c5024c1b479655e5c5e428d9d6''"
  "generateOrderNullifier exampleKey \<lparr> value = 9074240907964926257118201147682932489327558329938006028187344496231156313320 \<rparr> (VBigInt 2)
   = Inr ''0x281fad3bc5da0ae07fbf8a03a4454b5ec06372c5024c1b479655e5c5e428d9db''"
  "generateOrderNullifier exampleKey \<lparr> value = 9074240907964926257118201147682932489327558329938006028187344496231156313321 \<rparr> (VBigInt 3)
   = Inr ''0x281fad3bc5da0ae07fbf8a03a4454b5ec06372c5024c1b479655e5c5e428d9e0''"
  "generateOrderNullifier exampleKey \<lparr> value = 9074240907964926257118201147682932489327558329938006028187344496231156313322 \<rparr> (VBigInt 4)
   = Inr ''0x281fad3bc5da0ae07fbf8a03a4454b5ec06372c5024c1b479655e5c5e428d9e5''"
  by (simp_all add: generateOrderNullifier_def exampleKey_def addFE_def mulFE_def reduce_def Let_def
      signed_modulo_int_def FIELD_SIZE_def toHex_def bigintToString_def natToString.simps
      digitChar_def padStart_def)

lemma orderWorld_fields:
  "getSignerContract (orderWorld i) = Inr ()"
  "usedNullifiers (orderWorld i) = (\<lambda>n. Inr False)"
  "keeperLedger (orderWorld i) = soleLedger"
  by (simp_all add: orderWorld_def worldAt_def)

lemma soleLedger_throws:
  "getActiveKeeperPublicKey soleLedger = Inl (Error ''No active keepers available'')"
  by (simp add: getActiveKeeperPublicKey_throws soleLedger_def)

lemma example_attempts:
  "submitAttempt (orderWorld 0) exampleKey (Inr exampleOrder) calls
   = (Inl (Error ''No active keepers available''),
      calls @ [UsedNullifiers ''0x281fad3bc5da0ae07fbf8a03a4454b5ec06372c5024c1b479655e5c5e428d9d6''])"
  "submitAttempt (orderWorld 1) exampleKey (Inr exampleOrder) calls
   = (Inl (Error ''No active keepers available''),
      calls @ [UsedNullifiers ''0x281fad3bc5da0ae07fbf8a03a4454b5ec06372c5024c1b479655e5c5e428d9db''])"
  "submitAttempt (orderWorld 2) exampleKey (Inr exampleOrder) calls
   = (Inl (Error ''No active keepers available''),
      calls @ [UsedNullifiers ''0x281fad3bc5da0ae07fbf8a03a4454b5ec06372c5024c1b479655e5c5e428d9e0''])"
  "submitAttempt (orderWorld 3) exampleKey (Inr exampleOrder) calls
   = (Inl (Error ''No active keepers available''),
      calls @ [UsedNullifiers ''0x281fad3bc5da0ae07fbf8a03a4454b5ec06372c5024c1b479655e5c5e428d9e5''])"
  by (simp_all add: submitAttempt_def orderWorld_fields example_nonces
      example_nonces [unfolded One_nat_def] example_commitments
      example_nullifiers isNullifierUsed_def soleLedger_throws)

lemma noKeepers_error_retried:
  "shouldRetryOrder (Error ''No active keepers available'')"
  by (simp add: shouldRetryOrder_def isRetryableError_def messageOrString_def startsWith_def)

lemma example_submit:
  "submitPrivateOrder orderWorld (Some \<lparr> value = 7 \<rparr>) exampleKey (Inr ()) (Inr exampleOrder) []
   = (Inl (Error ''No active keepers available''),
      [UsedNullifiers ''0x281fad3bc5da0ae07fbf8a03a4454b5ec06372c5024c1b479655e5c5e428d9d6'',
       UsedNullifiers ''0x281fad3bc5da0ae07fbf8a03a4454b5ec06372c5024c1b479655e5c5e428d9db'',
       UsedNullifiers ''0x281fad3bc5da0ae07fbf8a03a4454b5ec06372c5024c1b479655e5c5e428d9e0'',
       UsedNullifiers ''0x281fad3bc5da0ae07fbf8a03a4454b5ec06372c5024c1b479655e5c5e428d9e5''])"
proof -
  let ?fn = "\<lambda>i. submitAttempt (orderWorld i) exampleKey (Inr exampleOrder)"
  let ?e = "Error ''No active keepers available''"
  have l3: "withRetry_loop ?fn shouldRetryOrder 3 le c = (Inl ?e, c @ [UsedNullifiers ''0x281fad3bc5da0ae07fbf8a03a4454b5ec06372c5024c1b479655e5c5e428d9e5''])" for le c
    by (subst withRetry_loop.simps) (simp add: maxRetries_def example_attempts)
  have l2: "withRetry_loop ?fn shouldRetryOrder 2 le c = (Inl ?e, (c @ [UsedNullifiers ''0x281fad3bc5da0ae07fbf8a03a4454b5ec06372c5024c1b479655e5c5e428d9e0'']) @ [UsedNullifiers ''0x281fad3bc5da0ae07fbf8a03a4454b5ec06372c5024c1b479655e5c5e428d9e5''])" for le c
    by (subst withRetry_loop.simps) (simp add: maxRetries_def example_attempts noKeepers_error_retried l3)
  have l1: "withRetry_loop ?fn shouldRetryOrder 1 le c = (Inl ?e, ((c @ [UsedNullifiers ''0x281fad3bc5da0ae07fbf8a03a4454b5ec06372c5024c1b479655e5c5e428d9db'']) @ [UsedNullifiers ''0x281fad3bc5da0ae07fbf8a03a4454b5ec06372c5024c1b479655e5c5e428d9e0'']) @ [UsedNullifiers ''0x281fad3bc5da0ae07fbf8a03a4454b5ec06372c5024c1b479655e5c5e428d9e5''])" for le c
    by (subst withRetry_loop.simps) (simp add: maxRetries_def example_attempts [unfolded One_nat_def] noKeepers_error_retried l2 l2 [unfolded numeral_2_eq_2])
  have l0: "withRetry_loop ?fn shouldRetryOrder 0 None [] = (Inl ?e, [UsedNullifiers ''0x281fad3bc5da0ae07fbf8a03a4454b5ec06372c5024c1b479655e5c5e428d9d6'', UsedNullifiers ''0x281fad3bc5da0ae07fbf8a03a4454b5ec06372c5024c1b479655e5c5e428d9db'', UsedNullifiers ''0x281fad3bc5da0ae07fbf8a03a4454b5ec06372c5024c1b479655e5c5e428d9e0'', UsedNullifiers ''0x281fad3bc5da0ae07fbf8a03a4454b5ec06372c5024c1b479655e5c5e428d9e5''])"
    by (subst withRetry_loop.simps) (simp add: maxRetries_def example_attempts noKeepers_error_retried l1 [unfolded One_nat_def])
  show ?thesis
    by (simp add: submitPrivateOrder_def withRetry_def l0)
qed


lemma example_values:
  "\<forall>i\<le>maxRetries. getSignerContract (orderWorld i) = Inr ()
     \<and> orderValues exampleKey exampleOrder (getRandomValues (orderWorld i)) = Inr (exampleValues i)"
proof (intro allI impI)
  fix i assume "i \<le> maxRetries"
  then have "i = 0 \<or> i = 1 \<or> i = 2 \<or> i = 3" by (simp add: maxRetries_def) arith
  then show "getSignerContract (orderWorld i) = Inr ()
     \<and> orderValues exampleKey exampleOrder (getRandomValues (orderWorld i)) = Inr (exampleValues i)"
    by (elim disjE)
       (simp_all add: orderWorld_fields orderValues_def example_nonces
          example_nonces [unfolded One_nat_def] example_commitments
          example_nullifiers exampleValues_def)
qed

lemma timeout_retried: "isRetryableError (Error ''timeout'')"
  by (simp add: isRetryableError_def messageOrString_def startsWith_def)

lemma example_flaky:
  "revealAccount flakyWorld exampleAddress (exampleManager, [])
   = (Inr \<lparr> revealedCommitment =
              ''0x000000000000000000000000000000000000000000000000000000000000004d'',
            success = True, txHash = ''0x7a11'' \<rparr>,
      (\<lparr> accountCommitment = Some \<lparr> value = 77 \<rparr>, accountNonce = Some 5, pendingCommit = None \<rparr>,
       [RevealTradingAccount
          ''0x000000000000000000000000000000000000000000000000000000000000004d'' 5
          [0, 0, 0, 0, 0, 0, 0, 0],
        RevealTradingAccount
          ''0x000000000000000000000000000000000000000000000000000000000000004d'' 5
          [0, 0, 0, 0, 0, 0, 0, 0]]))"
proof -
  let ?X = "RevealTradingAccount
          ''0x000000000000000000000000000000000000000000000000000000000000004d'' 5
          [0, 0, 0, 0, 0, 0, 0, 0]"
  have san: "sanitizeAddress (\<lambda>a. Inr a) exampleAddress = Inr exampleAddress"
    by (simp add: sanitizeAddress_def exampleAddress_def trim_def trimStart_def trimEnd_def
        isWhiteSpace_def startsWith_def Let_def)
  have a0: "revealAttempt (flakyWorld 0) exampleAddress (exampleManager, [])
            = (Inl (Error ''timeout''), (exampleManager, [?X]))"
    by (simp add: revealAttempt_def flakyWorld_def worldAt_def san exampleManager_def
        examplePending_def COMMIT_REVEAL_DELAY_def Let_def example_hex [unfolded examplePending_def, simplified]
        mockAccountProof_def)
  have a1: "revealAttempt (flakyWorld (Suc 0)) exampleAddress (exampleManager, [?X])
            = (Inr \<lparr> revealedCommitment =
              ''0x000000000000000000000000000000000000000000000000000000000000004d'',
            success = True, txHash = ''0x7a11'' \<rparr>,
      (\<lparr> accountCommitment = Some \<lparr> value = 77 \<rparr>, accountNonce = Some 5, pendingCommit = None \<rparr>,
       [?X, ?X]))"
    by (simp add: revealAttempt_def flakyWorld_def worldAt_def san exampleManager_def
        examplePending_def COMMIT_REVEAL_DELAY_def Let_def example_hex [unfolded examplePending_def, simplified]
        mockAccountProof_def)
  have "withRetry_loop (\<lambda>i. revealAttempt (flakyWorld i) exampleAddress) isRetryableError (Suc 0)
          (Some (Error ''timeout'')) (exampleManager, [?X])
        = (Inr \<lparr> revealedCommitment =
              ''0x000000000000000000000000000000000000000000000000000000000000004d'',
            success = True, txHash = ''0x7a11'' \<rparr>,
      (\<lparr> accountCommitment = Some \<lparr> value = 77 \<rparr>, accountNonce = Some 5, pendingCommit = None \<rparr>,
       [?X, ?X]))"
    by (subst withRetry_loop.simps) (simp add: maxRetries_def a1)
  then have "withRetry_loop (\<lambda>i. revealAttempt (flakyWorld i) exampleAddress) isRetryableError 0
          None (exampleManager, [])
        = (Inr \<lparr> revealedCommitment =
              ''0x000000000000000000000000000000000000000000000000000000000000004d'',
            success = True, txHash = ''0x7a11'' \<rparr>,
      (\<lparr> accountCommitment = Some \<lparr> value = 77 \<rparr>, accountNonce = Some 5, pendingCommit = None \<rparr>,
       [?X, ?X]))"
    by (subst withRetry_loop.simps) (simp add: maxRetries_def a0 timeout_retried)
  then show ?thesis
    by (simp add: revealAccount_def withRetry_def exampleManager_def)
qed

theorem retry_values_witness:
  "pendingCommit exampleManager = Some examplePending
   \<and> snd (snd (revealAccount flakyWorld exampleAddress (exampleManager, [])))
       = [RevealTradingAccount
            ''0x000000000000000000000000000000000000000000000000000000000000004d'' 5
            [0, 0, 0, 0, 0, 0, 0, 0],
          RevealTradingAccount
            ''0x000000000000000000000000000000000000000000000000000000000000004d'' 5
            [0, 0, 0, 0, 0, 0, 0, 0]]
   \<and> (\<exists>k. snd (snd (revealAccount flakyWorld exampleAddress (exampleManager, [])))
            = [] @ replicate k (RevealTradingAccount (toHex (commitment examplePending))
                                  (nonce examplePending) mockAccountProof))
   \<and> getSignerContract (orderWorld 0) = Inr ()
   \<and> orderValues exampleKey exampleOrder (getRandomValues (orderWorld 0)) = Inr (exampleValues 0)
   \<and> getSignerContract (orderWorld 1) = Inr ()
   \<and> orderValues exampleKey exampleOrder (getRandomValues (orderWorld 1)) = Inr (exampleValues 1)
   \<and> getSignerContract (orderWorld 2) = Inr ()
   \<and> orderValues exampleKey exampleOrder (getRandomValues (orderWorld 2)) = Inr (exampleValues 2)
   \<and> getSignerContract (orderWorld 3) = Inr ()
   \<and> orderValues exampleKey exampleOrder (getRandomValues (orderWorld 3)) = Inr (exampleValues 3)
   \<and> (\<exists>k\<ge>1. snd (submitPrivateOrder orderWorld (Some \<lparr> value = 7 \<rparr>) exampleKey (Inr ())
                     (Inr exampleOrder) [])
            = [] @ map (\<lambda>i. UsedNullifiers (nullifier (exampleValues i))) [0..<k])
   \<and> generateOrderNonce (getRandomValues (orderWorld 0)) = Inr (orderNonce (exampleValues 0))
   \<and> generateOrderNonce (getRandomValues (orderWorld 1)) = Inr (orderNonce (exampleValues 1))
   \<and> orderNonce (exampleValues 0) = 1 \<and> orderNonce (exampleValues 1) = 2"
proof -
  have pend: "pendingCommit exampleManager = Some examplePending"
    by (simp add: exampleManager_def)
  obtain r t c where rv: "revealAccount flakyWorld exampleAddress (exampleManager, []) = (r, (t, c))"
    by (metis prod.collapse)
  obtain r2 c2 where sb: "submitPrivateOrder orderWorld (Some \<lparr> value = 7 \<rparr>) exampleKey (Inr ())
                     (Inr exampleOrder) [] = (r2, c2)"
    by (metis prod.collapse)
  note T1 = retry_values [where this = exampleManager and pc = examplePending
      and world = flakyWorld and userAddress = exampleAddress and calls = "[]" and r = r
      and this' = t and calls' = c, THEN conjunct1]
  note T2 = retry_values [where world = orderWorld and privateKey = exampleKey
      and orderData = exampleOrder and v = exampleValues and account = "\<lparr> value = 7 \<rparr>"
      and calls = "[]" and ?r2.0 = r2 and ?calls2.0 = c2, THEN conjunct2]
  have k1: "\<exists>k. c = [] @ replicate k (RevealTradingAccount (toHex (commitment examplePending))
                                  (nonce examplePending) mockAccountProof)"
    using T1 pend rv by blast
  have k2: "(\<exists>k\<ge>1. c2 = [] @ map (\<lambda>i. UsedNullifiers (nullifier (exampleValues i))) [0..<k])
    \<and> (\<forall>i\<le>maxRetries. generateOrderNonce (getRandomValues (orderWorld i))
                          = Inr (orderNonce (exampleValues i)))"
    using T2 example_values sb by blast
  have n: "orderNonce (exampleValues 0) = 1" "orderNonce (exampleValues 1) = 2"
    by (simp_all add: exampleValues_def)
  have m: "(0::nat) \<le> maxRetries" "(1::nat) \<le> maxRetries" "(2::nat) \<le> maxRetries"
    "(3::nat) \<le> maxRetries" by (simp_all add: maxRetries_def)
  have e: "getSignerContract (orderWorld i) = Inr ()
     \<and> orderValues exampleKey exampleOrder (getRandomValues (orderWorld i)) = Inr (exampleValues i)"
    if "i \<le> maxRetries" for i
    using example_values that by blast
  have g: "generateOrderNonce (getRandomValues (orderWorld i)) = Inr (orderNonce (exampleValues i))"
    if "i \<le> maxRetries" for i
    using k2 that by blast
  have c1: "c = [RevealTradingAccount
            ''0x000000000000000000000000000000000000000000000000000000000000004d'' 5
            [0, 0, 0, 0, 0, 0, 0, 0],
          RevealTradingAccount
            ''0x000000000000000000000000000000000000000000000000000000000000004d'' 5
            [0, 0, 0, 0, 0, 0, 0, 0]]"
    using rv example_flaky by simp
  show ?thesis
    unfolding rv sb snd_conv
    using pend k1 k2 [THEN conjunct1] n c1 e [OF m(1)] e [OF m(2)] e [OF m(3)] e [OF m(4)]
      g [OF m(1)] g [OF m(2)]
    by (intro conjI) (simp_all only: simp_thms)
qed

text \<open>
  C3 as the specification words it fails for order submission: the four attempts of one
  call, each failing with an error that is retried, ask the ledger about four different
  nullifiers, computed from the four nonces 1, 2, 3, 4.
\<close>

theorem order_retry_counterexample:
  "submitPrivateOrder orderWorld (Some \<lparr> value = 7 \<rparr>) exampleKey (Inr ()) (Inr exampleOrder) []
   = (Inl (Error ''No active keepers available''),
      [UsedNullifiers ''0x281fad3bc5da0ae07fbf8a03a4454b5ec06372c5024c1b479655e5c5e428d9d6'',
       UsedNullifiers ''0x281fad3bc5da0ae07fbf8a03a4454b5ec06372c5024c1b479655e5c5e428d9db'',
       UsedNullifiers ''0x281fad3bc5da0ae07fbf8a03a4454b5ec06372c5024c1b479655e5c5e428d9e0'',
       UsedNullifiers ''0x281fad3bc5da0ae07fbf8a03a4454b5ec06372c5024c1b479655e5c5e428d9e5''])
   \<and> generateOrderNonce (getRandomValues (orderWorld 0)) = Inr 1
   \<and> generateOrderNonce (getRandomValues (orderWorld 1)) = Inr 2"
  using example_submit example_nonces by simp

section \<open>Mnemonic restore\<close>

lemma restore_invalid:
  "\<not> validateMnemonic mnemonic \<Longrightarrow>
   restoreFromMnemonic crypto mnemonic this = (Inl (Error ''Invalid mnemonic phrase''), this)"
  by (simp add: restoreFromMnemonic_def)

lemma validateMnemonic_words:
  "validateMnemonic mnemonic \<longleftrightarrow>
   length (splitWhiteSpace (toLowerCase (trim mnemonic))) \<in> {12, 15, 18, 21, 24} \<and>
   set (splitWhiteSpace (toLowerCase (trim mnemonic))) \<subseteq> set BIP39_WORDLIST"
  unfolding validateMnemonic_def Let_def by auto

lemma accepts_abandon: "validateMnemonic (elevenAbandon @ ''abandon'')" by code_simp
lemma accepts_ability: "validateMnemonic (elevenAbandon @ ''ability'')" by code_simp
lemma accepts_able: "validateMnemonic (elevenAbandon @ ''able'')" by code_simp
lemma accepts_about: "validateMnemonic (elevenAbandon @ ''about'')" by code_simp

lemma restore_valid:
  "validateMnemonic mnemonic \<Longrightarrow>
   restoreFromMnemonic exampleSubtle mnemonic emptyWallet =
     (Inr True,
      \<lparr> seed = Some (replicate 64 7),
        masterKey = Some \<lparr> nodeKey = \<lparr> value = 0 \<rparr>, chainCode = replicate 32 0, depth = 0,
                           parentFingerprint = [0, 0, 0, 0], childNumber = 0 \<rparr>,
        initialized = True \<rparr>)"
  by (simp add: restoreFromMnemonic_def seedFromMnemonic_def deriveMasterKey_def
      exampleSubtle_def emptyWallet_def fromBytes_def reduce_def replicate_numeral
      FIELD_SIZE_def)

text \<open>
  Claim C5 (restoring from a mnemonic checks the word count, the word list and the
  checksum, and derives no seed from a phrase that fails one of them). The code checks
  the count and the list only: \<open>validateMnemonic\<close> accepts the four phrases of twelve
  listed words that end in \<open>abandon\<close>, \<open>ability\<close>, \<open>able\<close> and \<open>about\<close>, which carry one
  entropy with four different checksums, and \<open>restoreFromMnemonic\<close> derives the seed and
  the master key from the second of them and reports success.
\<close>

theorem restore_skips_checksum:
  "validateMnemonic (elevenAbandon @ ''abandon'') \<and>
   validateMnemonic (elevenAbandon @ ''ability'') \<and>
   validateMnemonic (elevenAbandon @ ''able'') \<and>
   validateMnemonic (elevenAbandon @ ''about'') \<and>
   restoreFromMnemonic exampleSubtle (elevenAbandon @ ''ability'') emptyWallet =
     (Inr True,
      \<lparr> seed = Some (replicate 64 7),
        masterKey = Some \<lparr> nodeKey = \<lparr> value = 0 \<rparr>, chainCode = replicate 32 0, depth = 0,
                           parentFingerprint = [0, 0, 0, 0], childNumber = 0 \<rparr>,
        initialized = True \<rparr>)"
  using accepts_abandon accepts_ability accepts_able accepts_about
    restore_valid [OF accepts_ability] by simp

section \<open>Order encryption\<close>

lemma deriveEncryptionKey_bytes:
  "deriveEncryptionKey p (VBytes b) = Inl mixError"
  by (simp add: deriveEncryptionKey_def)

lemma encryptOrderForKeeper_error:
  "encryptOrderForKeeper p orderData kpub upriv =
     Inl (Error (''Failed to encrypt order: '' @
                 (case generateSharedSecret p upriv kpub of
                    Inl e \<Rightarrow> message e
                  | Inr sharedSecret \<Rightarrow> message mixError)))"
  by (simp add: encryptOrderForKeeper_def wrapError_def deriveEncryptionKey_bytes
      split: sum.splits)

lemma decryptOrderForKeeper_error:
  "decryptOrderForKeeper p encryptedOrder kpriv =
     Inl (Error (''Failed to decrypt order: '' @
                 (case generateSharedSecret p kpriv (VString (ephemeralPublicKey encryptedOrder)) of
                    Inl e \<Rightarrow> message e
                  | Inr sharedSecret \<Rightarrow> message mixError)))"
  by (simp add: decryptOrderForKeeper_def wrapError_def deriveEncryptionKey_bytes
      split: sum.splits)

lemma example_fallback:
  "sharedSecretFallback (VBigInt 5) (VString ''a'') = Inr (replicate 31 0 @ [50])"
  by code_simp

lemma example_sharedSecret:
  "\<exists>bs. generateSharedSecret p (VBigInt 5) (VString ''a'') = Inr bs"
  using example_fallback
  by (simp add: generateSharedSecret_def split: sum.splits)

text \<open>
  Claim C7 (decrypting an encrypted order with the keeper's private key gives back the
  order; another key raises an error). \<open>generateSharedSecret\<close> returns a Uint8Array on
  both of its paths and \<open>deriveEncryptionKey\<close> hands it to \<open>bigintToBytes\<close>, whose
  \<open>v & 0xFFn\<close> throws on anything but a BigInt. So for every platform, order and pair of
  keys \<open>encryptOrderForKeeper\<close> throws, the round trip ends in that error with no order
  returned, and \<open>decryptOrderForKeeper\<close> throws on every encrypted order and key.
\<close>

theorem round_trip_fails:
  "(\<exists>m. encryptOrderForKeeper p orderData kpub upriv =
          Inl (Error (''Failed to encrypt order: '' @ m))) \<and>
   (\<exists>m. roundTrip p orderData kpub upriv kpriv =
          Inl (Error (''Failed to encrypt order: '' @ m))) \<and>
   (\<exists>m. decryptOrderForKeeper p encryptedOrder kpriv =
          Inl (Error (''Failed to decrypt order: '' @ m)))"
  by (simp add: roundTrip_def encryptOrderForKeeper_error decryptOrderForKeeper_error)

text \<open>
  Claim C2 (an encrypted order is exactly 512 bytes: 33 of ephemeral key, 24 of nonce, 455
  of padded ciphertext). On the example order, for key 5 and the public key \<open>a\<close> derived
  from it, \<open>encryptOrderForKeeper\<close> produces no bytes at all, whatever the platform
  answers. \<open>encryptWithAES\<close>, were it reached, draws an IV of twelve bytes and returns a
  ciphertext as long as the data, here three bytes, with no padding and no bound on the
  size; and the size the submission compares with, \<open>ZK_CONFIG.ENCRYPTED_ORDER_SIZE\<close>, is
  256 where \<open>constants.js\<close> has 512.
\<close>

theorem no_encrypted_order:
  "encryptOrderForKeeper p exampleOrder (VString ''a'') (VBigInt 5) =
     Inl (Error ''Failed to encrypt order: Cannot mix BigInt and other types, use explicit conversions'') \<and>
   encryptWithAES
     (p \<lparr> randomIv := replicate 12 0,
          aesGcmEncrypt := (\<lambda>key iv data. Inr (data @ replicate 16 0)) \<rparr>)
     [1, 2, 3] key =
     Inr \<lparr> ciphertext = [1, 2, 3], aes_iv = replicate 12 0, aes_authTag = replicate 16 0 \<rparr> \<and>
   ZK_CONFIG_ENCRYPTED_ORDER_SIZE = 256 \<and> ENCRYPTED_ORDER_SIZE = 512"
proof -
  obtain bs where "generateSharedSecret p (VBigInt 5) (VString ''a'') = Inr bs"
    using example_sharedSecret by blast
  then have "encryptOrderForKeeper p exampleOrder (VString ''a'') (VBigInt 5) =
     Inl (Error ''Failed to encrypt order: Cannot mix BigInt and other types, use explicit conversions'')"
    by (simp add: encryptOrderForKeeper_error mixError_def)
  then show ?thesis
    by (simp add: encryptWithAES_def ZK_CONFIG_ENCRYPTED_ORDER_SIZE_def ENCRYPTED_ORDER_SIZE_def)
qed

end
